theory Spec2Isabelle
  imports Complex_Main "HOL-Library.Word" "HOL-Library.Sublist"
begin

section \<open>JavaScript values used by the three request handlers\<close>

text \<open>
  A JavaScript string is a sequence of UTF-16 code units; \<open>length\<close> counts code
  units, as \<^verbatim>\<open>String.prototype.length\<close> does. An ASCII literal of the source is
  written \<open>js ''...''\<close>.
\<close>

type_synonym jsstring = "16 word list"

definition js :: "string \<Rightarrow> jsstring" where
  "js s = map (\<lambda>c. word_of_nat (of_char c)) s"

text \<open>
  A property that may be missing (\<^verbatim>\<open>undefined\<close> or \<^verbatim>\<open>null\<close>) is an option. A
  missing value and the empty string are the falsy ones; \<open>js_or\<close> is \<^verbatim>\<open>a || b\<close>.
\<close>

definition truthy :: "jsstring option \<Rightarrow> bool" where
  "truthy v = (case v of None \<Rightarrow> False | Some s \<Rightarrow> s \<noteq> [])"

definition js_or :: "jsstring option \<Rightarrow> jsstring option \<Rightarrow> jsstring option" where
  "js_or a b = (if truthy a then a else b)"

text \<open>Interpolation into a template literal: a missing value prints as \<^verbatim>\<open>undefined\<close>.\<close>

definition interp :: "jsstring option \<Rightarrow> jsstring" where
  "interp v = (case v of None \<Rightarrow> js ''undefined'' | Some s \<Rightarrow> s)"

text \<open>A thrown \<^verbatim>\<open>Error\<close>, with its message. The text of its stack trace is left out.\<close>

datatype exn = Error (message: jsstring)

text \<open>\<^verbatim>\<open>String.prototype.split\<close> with a one-character separator.\<close>

fun split_on :: "'a \<Rightarrow> 'a list \<Rightarrow> 'a list list" where
  "split_on sep [] = [[]]"
| "split_on sep (c # cs) =
     (if c = sep then [] # split_on sep cs
      else (case split_on sep cs of
              [] \<Rightarrow> [[c]]
            | t # ts \<Rightarrow> (c # t) # ts))"

text \<open>\<^verbatim>\<open>Array.prototype.pop\<close> as an expression: the last element, or nothing.\<close>

definition pop :: "'a list \<Rightarrow> 'a option" where
  "pop xs = (if xs = [] then None else Some (last xs))"

section \<open>The environment: configuration, request, record store, external calls\<close>

text \<open>\<^verbatim>\<open>process.env\<close>: every variable is a string or is unset.\<close>

record config =
  AWS_DYNAMODB_TABLE :: "jsstring option"
  GITHUB_ORG :: "jsstring option"
  GITHUB_OWNER :: "jsstring option"
  GITHUB_REPO :: "jsstring option"
  SITE_URL :: "jsstring option"
  SERVICE_URL :: "jsstring option"
  AWS_BUCKET_NAME :: "jsstring option"
  NODE_ENV :: "jsstring option"

text \<open>
  The request event. \<open>body\<close> stands for what \<^verbatim>\<open>JSON.parse(event.body)\<close> and the
  destructuring of its result yield; its type differs from handler to handler.
  \<open>host\<close> is \<^verbatim>\<open>event.headers.host\<close>.
\<close>

record 'b event =
  httpMethod :: jsstring
  path :: jsstring
  host :: "jsstring option"
  body :: 'b

text \<open>The item the dispatcher stores and the reconciler reads, keyed by \<open>buildId\<close>.\<close>

record build_record =
  r_buildId :: jsstring
  r_projectId :: "jsstring option"
  r_status :: "jsstring option"
  r_createdAt :: "jsstring option"
  r_authorEmail :: "jsstring option"
  r_title :: "jsstring option"
  r_slug :: "jsstring option"
  r_fileSize :: "nat option"
  r_ttl :: "nat option"

text \<open>A workflow run as the CI provider lists it.\<close>

record workflow_run =
  head_branch :: "jsstring option"
  run_status :: "jsstring option"
  conclusion :: "jsstring option"
  html_url :: "jsstring option"

text \<open>The calls a handler makes to the services outside it, with their arguments.\<close>

datatype call =
    DynamoPut jsstring build_record
  | DynamoGet jsstring jsstring
  | GetRef jsstring jsstring jsstring
  | CreateRef jsstring jsstring jsstring jsstring
  | GetContent jsstring jsstring jsstring jsstring
  | CreateOrUpdateFileContents jsstring jsstring jsstring jsstring jsstring jsstring
      "jsstring option" jsstring jsstring
  | CreateWorkflowDispatch jsstring jsstring jsstring jsstring jsstring jsstring
  | ListWorkflowRunsForRepo jsstring jsstring nat
  | Fetch jsstring

text \<open>
  The world outside a handler: the record store (table name, then key), the refs the
  repositories have (owner, repository, ref) and the calls made so far, oldest first.
\<close>

record world =
  db :: "jsstring \<Rightarrow> jsstring \<Rightarrow> build_record option"
  refs :: "(jsstring \<times> jsstring \<times> jsstring) set"
  trace :: "call list"

definition called :: "call \<Rightarrow> world \<Rightarrow> world" where
  "called c w = w\<lparr>trace := trace w @ [c]\<rparr>"

text \<open>
  \<^verbatim>\<open>dynamodb.get(...).promise()\<close>: rejects with \<open>fault\<close> when there is one, else
  resolves to the stored item, if any. The store is only read.
\<close>

definition dynamodb_get ::
  "exn option \<Rightarrow> jsstring \<Rightarrow> jsstring \<Rightarrow> world \<Rightarrow> (exn + build_record option) \<times> world" where
  "dynamodb_get fault table key w =
     (case fault of
        Some e \<Rightarrow> (Inl e, called (DynamoGet table key) w)
      | None \<Rightarrow> (Inr (db w table key), called (DynamoGet table key) w))"

text \<open>
  \<^verbatim>\<open>dynamodb.put(...).promise()\<close>: rejects with \<open>fault\<close> when there is one, else
  writes the item under its \<open>buildId\<close>.
\<close>

definition dynamodb_put ::
  "exn option \<Rightarrow> jsstring \<Rightarrow> build_record \<Rightarrow> world \<Rightarrow> (exn + unit) \<times> world" where
  "dynamodb_put fault table item w =
     (case fault of
        Some e \<Rightarrow> (Inl e, called (DynamoPut table item) w)
      | None \<Rightarrow>
          (Inr (),
           called (DynamoPut table item)
             (w\<lparr>db := (db w)(table := (db w table)(r_buildId item \<mapsto> item))\<rparr>)))"

text \<open>
  \<^verbatim>\<open>octokit.git.createRef(...)\<close>: rejects with \<open>fault\<close> when there is one, else the
  repository has the new ref.
\<close>

definition git_createRef ::
  "exn option \<Rightarrow> jsstring \<Rightarrow> jsstring \<Rightarrow> jsstring \<Rightarrow> jsstring \<Rightarrow> world \<Rightarrow> (exn + unit) \<times> world" where
  "git_createRef fault owner repo ref sha w =
     (case fault of
        Some e \<Rightarrow> (Inl e, called (CreateRef owner repo ref sha) w)
      | None \<Rightarrow>
          (Inr (),
           called (CreateRef owner repo ref sha) (w\<lparr>refs := insert (owner, repo, ref) (refs w)\<rparr>)))"

text \<open>An HTTP response; \<open>payload\<close> is the object given to \<^verbatim>\<open>JSON.stringify\<close>.\<close>

record 'p response =
  statusCode :: nat
  payload :: 'p

section \<open>Status Reconciler (build-status handler)\<close>

text \<open>What the reconciler answers.\<close>

record status_report =
  s_buildId :: jsstring
  s_projectId :: "jsstring option"
  s_status :: "jsstring option"
  s_title :: "jsstring option"
  s_slug :: "jsstring option"
  s_createdAt :: "jsstring option"
  s_authorEmail :: "jsstring option"
  s_fileSize :: "nat option"
  s_workflow_status :: "jsstring option"
  s_workflow_conclusion :: "jsstring option"
  s_workflow_url :: "jsstring option"
  s_url_site :: "jsstring option"
  s_url_download :: "jsstring option"
  s_url_archive :: "jsstring option"

datatype status_payload =
    SEmpty
  | SError jsstring
  | SReport status_report

text \<open>What the external services answer during one status request.\<close>

record status_io =
  get_fault :: "exn option"
  runs_reply :: "exn + workflow_run list"

text \<open>\<^verbatim>\<open>event.path.split('/').filter(p => p).pop()\<close>\<close>

definition extract_buildId :: "jsstring \<Rightarrow> jsstring option" where
  "extract_buildId p = pop (filter (\<lambda>s. s \<noteq> []) (split_on (0x2F :: 16 word) p))"

text \<open>The record lookup: skipped when no table is configured, empty when the call fails.\<close>

definition lookup_build ::
  "config \<Rightarrow> status_io \<Rightarrow> jsstring \<Rightarrow> world \<Rightarrow> build_record option \<times> world" where
  "lookup_build env io buildId w =
     (if truthy (AWS_DYNAMODB_TABLE env) then
        (case dynamodb_get (get_fault io) (the (AWS_DYNAMODB_TABLE env)) buildId w of
           (Inr item, w') \<Rightarrow> (item, w')
         | (Inl err, w') \<Rightarrow> (None, w'))
      else (None, w))"

text \<open>
  The workflow query: the first listed run on the build's branch. There is none without
  configuration, when the listing fails and when no run is on that branch.
\<close>

definition find_workflow ::
  "config \<Rightarrow> status_io \<Rightarrow> jsstring \<Rightarrow> world \<Rightarrow> workflow_run option \<times> world" where
  "find_workflow env io buildId w =
     (let owner = js_or (GITHUB_ORG env) (GITHUB_OWNER env);
          repo = GITHUB_REPO env
      in if truthy owner \<and> truthy repo then
           (let w' = called (ListWorkflowRunsForRepo (the owner) (the repo) 50) w
            in case runs_reply io of
                 Inl err \<Rightarrow> (None, w')
               | Inr workflow_runs \<Rightarrow>
                   (let branchName = js ''build/'' @ buildId
                    in (find (\<lambda>r. head_branch r = Some branchName) workflow_runs, w')))
         else (None, w))"

text \<open>
  \<open>(workflowStatus, workflowConclusion, workflowUrl)\<close>: \<open>('unknown', null, null)\<close>
  unless a run was found.
\<close>

definition workflow_state ::
  "workflow_run option \<Rightarrow> jsstring option \<times> jsstring option \<times> jsstring option" where
  "workflow_state workflow =
     (case workflow of
        None \<Rightarrow> (Some (js ''unknown''), None, None)
      | Some r \<Rightarrow> (run_status r, conclusion r, html_url r))"

text \<open>
  Modelled from the spec: the type of the stored item is declared nowhere under src/. The
  data model gives its \<open>status\<close> field these four values, of which the dispatcher writes
  \<open>queued\<close>.
\<close>

definition status_values :: "jsstring set" where
  "status_values = {js ''queued'', js ''building'', js ''completed'', js ''failed''}"

text \<open>The reconciliation rule.\<close>

definition final_status ::
  "build_record \<Rightarrow> jsstring option \<Rightarrow> jsstring option \<Rightarrow> jsstring option" where
  "final_status buildData workflowStatus workflowConclusion =
     (if workflowStatus = Some (js ''completed'') then
        (if workflowConclusion = Some (js ''success'')
         then Some (js ''completed'') else Some (js ''failed''))
      else if workflowStatus = Some (js ''in_progress'') then Some (js ''building'')
      else js_or (r_status buildData) (Some (js ''queued'')))"

text \<open>The handler once the \<open>buildId\<close> is known: lookup, workflow query, response.\<close>

definition reconcile ::
  "config \<Rightarrow> status_io \<Rightarrow> jsstring \<Rightarrow> world \<Rightarrow> status_payload response \<times> world" where
  "reconcile env io buildId w =
     (case lookup_build env io buildId w of
        (None, w1) \<Rightarrow>
          (\<lparr>statusCode = 404, payload = SError (js ''Build not found'')\<rparr>, w1)
      | (Some buildData, w1) \<Rightarrow>
          (case find_workflow env io buildId w1 of
             (workflow, w2) \<Rightarrow>
               (case workflow_state workflow of
                  (workflowStatus, workflowConclusion, workflowUrl) \<Rightarrow>
                    (let finalStatus = final_status buildData workflowStatus workflowConclusion;
                         siteUrl =
                           (if truthy (SITE_URL env)
                            then Some (the (SITE_URL env) @ js ''/''
                                       @ interp (r_projectId buildData) @ js ''/'')
                            else None);
                         downloadUrl =
                           (if truthy (SERVICE_URL env)
                            then Some (the (SERVICE_URL env) @ js ''/download/'' @ buildId)
                            else None);
                         archiveUrl =
                           (if truthy (AWS_BUCKET_NAME env)
                            then Some (js ''s3://'' @ the (AWS_BUCKET_NAME env)
                                       @ js ''/archives/'' @ interp (r_projectId buildData)
                                       @ js ''/'' @ buildId @ js ''/'')
                            else None)
                     in (\<lparr>statusCode = 200,
                          payload = SReport
                            \<lparr>s_buildId = buildId,
                             s_projectId = r_projectId buildData,
                             s_status = finalStatus,
                             s_title = r_title buildData,
                             s_slug = r_slug buildData,
                             s_createdAt = r_createdAt buildData,
                             s_authorEmail = r_authorEmail buildData,
                             s_fileSize = r_fileSize buildData,
                             s_workflow_status = workflowStatus,
                             s_workflow_conclusion = workflowConclusion,
                             s_workflow_url = workflowUrl,
                             s_url_site = siteUrl,
                             s_url_download = downloadUrl,
                             s_url_archive = archiveUrl\<rparr>\<rparr>, w2)))))"

text \<open>
  The handler. The event's \<open>path\<close> is a string, so nothing inside the handler's
  \<^verbatim>\<open>try\<close> block throws and its \<^verbatim>\<open>catch\<close> (500, \<open>Status check failed\<close>) is not
  reached: the two external calls have handlers of their own.
\<close>

definition build_status_handler ::
  "config \<Rightarrow> status_io \<Rightarrow> 'b event \<Rightarrow> world \<Rightarrow> status_payload response \<times> world" where
  "build_status_handler env io ev w =
     (if httpMethod ev = js ''OPTIONS'' then (\<lparr>statusCode = 200, payload = SEmpty\<rparr>, w)
      else if httpMethod ev \<noteq> js ''GET'' then
        (\<lparr>statusCode = 405, payload = SError (js ''Method not allowed'')\<rparr>, w)
      else
        (case extract_buildId (path ev) of
           None \<Rightarrow> (\<lparr>statusCode = 400, payload = SError (js ''Build ID required'')\<rparr>, w)
         | Some buildId \<Rightarrow> reconcile env io buildId w))"

text \<open>The \<open>status\<close> field of a response, when it is a status report.\<close>

definition reported_status :: "status_payload response \<Rightarrow> jsstring option" where
  "reported_status r = (case payload r of SReport rep \<Rightarrow> s_status rep | _ \<Rightarrow> None)"

section \<open>Build Dispatcher (build handler)\<close>

text \<open>
  The request body, \<^verbatim>\<open>{ markdown: string, projectId: string, metadata: object }\<close>, each
  part of which may be missing. \<open>Throws\<close> is a body on which \<^verbatim>\<open>JSON.parse\<close> or the
  destructuring of its result throws.
\<close>

datatype 'a parsed = Throws exn | Parsed 'a

record metadata =
  m_slug :: "jsstring option"
  m_title :: "jsstring option"
  m_author :: "jsstring option"
  m_authorName :: "jsstring option"

record build_body =
  b_markdown :: "jsstring option"
  b_projectId :: "jsstring option"
  b_metadata :: "metadata option"

text \<open>\<^verbatim>\<open>metadata?.field\<close>\<close>

definition opt_chain :: "metadata option \<Rightarrow> (metadata \<Rightarrow> jsstring option) \<Rightarrow> jsstring option" where
  "opt_chain m field = (case m of None \<Rightarrow> None | Some x \<Rightarrow> field x)"

text \<open>
  What the outside answers during one dispatch: the generated identifier, the clock, and
  the outcome of each external call (a fault is the error the call rejects with).
\<close>

record build_io =
  uuid :: jsstring
  now_iso :: jsstring
  now_ms :: nat
  put_fault :: "exn option"
  getRef_reply :: "exn + jsstring"
  createRef_fault :: "exn option"
  getContent_reply :: "exn + jsstring option"
  createFile_fault :: "exn option"
  dispatch_fault :: "exn option"

text \<open>
  The provider refuses to create a ref the repository has: then the outcome of this
  dispatch's \<^verbatim>\<open>createRef\<close> in the world \<open>w\<close> is a fault.
\<close>

definition refuses_existing_ref :: "config \<Rightarrow> build_io \<Rightarrow> world \<Rightarrow> bool" where
  "refuses_existing_ref env io w \<longleftrightarrow>
     ((the (js_or (GITHUB_ORG env) (GITHUB_OWNER env)), the (GITHUB_REPO env),
       js ''refs/heads/'' @ js ''build/'' @ uuid io) \<in> refs w
      \<longrightarrow> createRef_fault io \<noteq> None)"

record build_accepted =
  a_status :: jsstring
  a_buildId :: jsstring
  a_projectId :: jsstring
  a_branchName :: jsstring
  a_filePath :: jsstring
  a_estimatedTime :: nat
  a_pollingUrl :: jsstring
  a_title :: jsstring
  a_slug :: jsstring
  a_createdAt :: jsstring

text \<open>
  The payloads of the dispatcher. \<open>BFailure error message with_stack\<close> is the 500
  payload; \<open>with_stack\<close> tells whether the stack trace is included.
\<close>

datatype build_payload =
    BEmpty
  | BError jsstring
  | BFailure jsstring jsstring bool
  | BAccepted build_accepted

text \<open>The item the dispatcher stores; \<open>ttl\<close> is seven years after the dispatch, in seconds.\<close>

definition new_record ::
  "build_io \<Rightarrow> jsstring \<Rightarrow> jsstring \<Rightarrow> metadata option \<Rightarrow> jsstring \<Rightarrow> jsstring \<Rightarrow> build_record" where
  "new_record io markdown projectId metadata title slug =
     \<lparr>r_buildId = uuid io,
      r_projectId = Some projectId,
      r_status = Some (js ''queued''),
      r_createdAt = Some (now_iso io),
      r_authorEmail = js_or (opt_chain metadata m_author) (Some (js ''unknown'')),
      r_title = Some title,
      r_slug = Some slug,
      r_fileSize = Some (length markdown),
      r_ttl = Some (now_ms io div 1000 + 7 * 365 * 24 * 60 * 60)\<rparr>"

text \<open>
  Storing the build metadata: skipped without a table; a failure is logged and the
  dispatch goes on.
\<close>

definition store_metadata ::
  "config \<Rightarrow> build_io \<Rightarrow> build_record \<Rightarrow> world \<Rightarrow> world" where
  "store_metadata env io item w =
     (if truthy (AWS_DYNAMODB_TABLE env) then
        (case dynamodb_put (put_fault io) (the (AWS_DYNAMODB_TABLE env)) item w of
           (Inr u, w') \<Rightarrow> w'
         | (Inl err, w') \<Rightarrow> w')
      else w)"

text \<open>
  The body of the handler's \<^verbatim>\<open>try\<close> block; \<open>Inl\<close> is an exception that reaches the
  handler's \<^verbatim>\<open>catch\<close>. The file content goes to the repository call as the base64
  text of \<open>markdown\<close>; the call is recorded with \<open>markdown\<close> itself.
\<close>

definition dispatch ::
  "config \<Rightarrow> build_io \<Rightarrow> build_body parsed event \<Rightarrow> world \<Rightarrow>
     (exn + build_payload response) \<times> world" where
  "dispatch env io ev w =
     (case body ev of
        Throws err \<Rightarrow> (Inl err, w)
      | Parsed b \<Rightarrow>
          if \<not> truthy (b_markdown b) \<or> \<not> truthy (b_projectId b) then
            (Inr \<lparr>statusCode = 400,
                  payload = BError (js ''Missing required fields: markdown, projectId'')\<rparr>, w)
          else
            (let markdown = the (b_markdown b);
                 projectId = the (b_projectId b);
                 metadata = b_metadata b;
                 buildId = uuid io;
                 branchName = js ''build/'' @ buildId;
                 timestamp = now_iso io;
                 slug = the (js_or (opt_chain metadata m_slug) (Some (js ''index'')));
                 title = the (js_or (opt_chain metadata m_title) (Some (js ''Untitled'')));
                 w1 = store_metadata env io
                        (new_record io markdown projectId metadata title slug) w;
                 owner = js_or (GITHUB_ORG env) (GITHUB_OWNER env);
                 repo = GITHUB_REPO env
             in if \<not> truthy owner \<or> \<not> truthy repo then
                  (Inl (Error (js ''GitHub configuration missing: GITHUB_ORG and GITHUB_REPO required'')),
                   w1)
                else
                  (let w2 = called (GetRef (the owner) (the repo) (js ''heads/main'')) w1
                   in case getRef_reply io of
                        Inl err \<Rightarrow> (Inl err, w2)
                      | Inr sha \<Rightarrow>
                          (case git_createRef (createRef_fault io) (the owner) (the repo)
                                  (js ''refs/heads/'' @ branchName) sha w2 of
                             (Inl err, w3) \<Rightarrow> (Inl err, w3)
                           | (Inr created, w3) \<Rightarrow>
                                  (let filePath = js ''content/'' @ projectId @ js ''/'' @ slug
                                                    @ js ''.md'';
                                       w4 = called (GetContent (the owner) (the repo) filePath
                                                      branchName) w3;
                                       existingSha =
                                         (case getContent_reply io of
                                            Inl err \<Rightarrow> None
                                          | Inr found \<Rightarrow> found);
                                       w5 = called (CreateOrUpdateFileContents (the owner) (the repo)
                                                      filePath
                                                      (js ''build: '' @ title @ js '' ['' @ buildId
                                                         @ js '']'')
                                                      markdown branchName existingSha
                                                      (the (js_or (opt_chain metadata m_authorName)
                                                              (Some (js ''Twelvety Service''))))
                                                      (the (js_or (opt_chain metadata m_author)
                                                              (Some (js ''service@twelvety.dev''))))) w4
                                   in case createFile_fault io of
                                        Some err \<Rightarrow> (Inl err, w5)
                                      | None \<Rightarrow>
                                          (let w6 = called (CreateWorkflowDispatch (the owner)
                                                              (the repo) (js ''build.yml'') branchName
                                                              buildId projectId) w5;
                                               serviceUrl =
                                                 (if truthy (SERVICE_URL env) then the (SERVICE_URL env)
                                                  else js ''https://'' @ interp (host ev))
                                           in (Inr \<lparr>statusCode = 202,
                                                     payload = BAccepted
                                                       \<lparr>a_status = js ''queued'',
                                                        a_buildId = buildId,
                                                        a_projectId = projectId,
                                                        a_branchName = branchName,
                                                        a_filePath = filePath,
                                                        a_estimatedTime = 5,
                                                        a_pollingUrl = serviceUrl @ js ''/api/build/''
                                                                         @ buildId @ js ''/status'',
                                                        a_title = title,
                                                        a_slug = slug,
                                                        a_createdAt = timestamp\<rparr>\<rparr>, w6)))))))"

text \<open>
  The handler: an exception of the \<^verbatim>\<open>try\<close> block becomes the 500 answer. The outcome
  of the workflow dispatch (\<open>dispatch_fault\<close>) is looked at by no branch: the source
  catches and logs it.
\<close>

definition build_handler ::
  "config \<Rightarrow> build_io \<Rightarrow> build_body parsed event \<Rightarrow> world \<Rightarrow> build_payload response \<times> world" where
  "build_handler env io ev w =
     (if httpMethod ev = js ''OPTIONS'' then (\<lparr>statusCode = 200, payload = BEmpty\<rparr>, w)
      else if httpMethod ev \<noteq> js ''POST'' then
        (\<lparr>statusCode = 405, payload = BError (js ''Method not allowed'')\<rparr>, w)
      else
        (case dispatch env io ev w of
           (Inr r, w') \<Rightarrow> (r, w')
         | (Inl error, w') \<Rightarrow>
             (\<lparr>statusCode = 500,
               payload = BFailure (js ''Build trigger failed'') (message error)
                           (NODE_ENV env = Some (js ''development''))\<rparr>, w')))"

text \<open>The accepted-build payload of a response, when it is one.\<close>

definition accepted :: "build_payload response \<Rightarrow> build_accepted option" where
  "accepted r = (case payload r of BAccepted a \<Rightarrow> Some a | _ \<Rightarrow> None)"

section \<open>Validator (validate handler)\<close>

text \<open>
  The characters the regular expression \<^verbatim>\<open>\s\<close> matches: the white space and line
  terminator code units of ECMAScript.
\<close>

definition is_space :: "16 word \<Rightarrow> bool" where
  "is_space c \<longleftrightarrow>
     c = 0x09 \<or> c = 0x0A \<or> c = 0x0B \<or> c = 0x0C \<or> c = 0x0D \<or> c = 0x20 \<or> c = 0xA0
     \<or> c = 0x1680 \<or> (0x2000 \<le> c \<and> c \<le> 0x200A) \<or> c = 0x2028 \<or> c = 0x2029
     \<or> c = 0x202F \<or> c = 0x205F \<or> c = 0x3000 \<or> c = 0xFEFF"

text \<open>
  \<^verbatim>\<open>content.split(/\s+/)\<close>: every maximal run of white space separates two pieces, so
  a text that starts or ends with white space has an empty first or last piece, and the
  empty text has the one piece \<open>''\<close>.
\<close>

function split_ws :: "jsstring \<Rightarrow> jsstring list" where
  "split_ws [] = [[]]"
| "split_ws (c # cs) =
     (if is_space c then [] # split_ws (dropWhile is_space cs)
      else (case split_ws cs of
              [] \<Rightarrow> [[c]]
            | t # ts \<Rightarrow> (c # t) # ts))"
  by pat_completeness auto
termination
  by (relation "measure length") (auto simp add: le_imp_less_Suc length_dropWhile_le)

text \<open>\<^verbatim>\<open>content.split(/\s+/).filter(w => w.length > 0).length\<close>\<close>

definition word_count :: "jsstring \<Rightarrow> nat" where
  "word_count content = length (filter (\<lambda>w. length w > 0) (split_ws content))"

text \<open>
  \<^verbatim>\<open>Math.ceil(wordCount / 200)\<close>. The quotient is taken exactly: the count is at most
  the length of a string, far below the size from which the rounding of a double could
  reach the next whole number.
\<close>

definition reading_time :: "nat \<Rightarrow> nat" where
  "reading_time wordCount = nat \<lceil>(of_nat wordCount :: rat) / 200\<rceil>"

record metrics =
  wordCount :: nat
  readingTime :: nat
  contentLength :: nat
  hasImages :: bool
  hasCode :: bool

text \<open>The content metrics; the two tests are \<^verbatim>\<open>/<img|!\[/\<close> and three backquotes.\<close>

definition content_metrics :: "jsstring \<Rightarrow> metrics" where
  "content_metrics content =
     \<lparr>wordCount = word_count content,
      readingTime = reading_time (word_count content),
      contentLength = length content,
      hasImages = (sublist (js ''<img'') content \<or> sublist (js ''!['') content),
      hasCode = sublist (js ''```'') content\<rparr>"

text \<open>The request body, \<^verbatim>\<open>{ markdown: string, schemaUrl?: string }\<close>.\<close>

record validate_body =
  v_markdown :: "jsstring option"
  v_schemaUrl :: "jsstring option"

text \<open>An error object of the schema validator.\<close>

record 'par ajv_error =
  instancePath :: jsstring
  schemaPath :: jsstring
  keyword :: jsstring
  params :: 'par
  err_message :: "jsstring option"

text \<open>
  What \<^verbatim>\<open>fetch\<close> does: reject, or resolve to a response with its \<open>ok\<close> flag, its
  status and what \<^verbatim>\<open>json()\<close> gives.
\<close>

datatype 'sch fetch_reply =
    FetchRejects exn
  | FetchResponse bool nat "exn + 'sch"

text \<open>
  The libraries and the network the validator calls, for a frontmatter type \<open>'fm\<close>, a
  schema type \<open>'sch\<close> and a type \<open>'par\<close> of keyword parameters:
  \<^item> \<open>matter\<close> is the frontmatter parser: it throws, or gives the data and the body;
  \<^item> \<open>fetch\<close> is the network;
  \<^item> \<open>ajv_compile\<close> throws or gives the validating function, whose result is
    \<open>None\<close> for valid data and the list \<^verbatim>\<open>validate.errors\<close> otherwise;
  \<^item> \<open>md_render\<close> is the markdown renderer.
\<close>

record ('fm, 'sch, 'par) validate_io =
  matter :: "jsstring \<Rightarrow> exn + ('fm \<times> jsstring)"
  fetch :: "jsstring \<Rightarrow> 'sch fetch_reply"
  ajv_compile :: "'sch \<Rightarrow> exn + ('fm \<Rightarrow> 'par ajv_error list option)"
  md_render :: "jsstring \<Rightarrow> jsstring"

text \<open>
  The entries of \<open>errors\<close>: the one of a frontmatter that does not parse (path, message,
  line, details) and the one of a schema violation (path, message, keyword, params).
\<close>

datatype 'par error_entry =
    SyntaxEntry jsstring jsstring nat jsstring
  | ViolationEntry jsstring "jsstring option" jsstring 'par

datatype ('fm, 'par) validate_payload =
    VEmpty
  | VError jsstring
  | VErrorDetails jsstring jsstring
  | VInvalid "'par error_entry list"
  | VValid 'fm jsstring jsstring metrics
  | VFailure jsstring jsstring

text \<open>Decimal digits of a number, as a template literal prints it.\<close>

fun show_nat :: "nat \<Rightarrow> jsstring" where
  "show_nat n =
     (if n < 10 then [of_nat (48 + n)] else show_nat (n div 10) @ [of_nat (48 + n mod 10)])"

text \<open>Fetching the schema: any failure becomes the error the handler catches.\<close>

definition fetch_schema :: "'sch fetch_reply \<Rightarrow> exn + 'sch" where
  "fetch_schema reply =
     (case reply of
        FetchRejects err \<Rightarrow> Inl err
      | FetchResponse ok status json \<Rightarrow>
          if \<not> ok then Inl (Error (js ''Schema fetch failed: '' @ show_nat status)) else json)"

text \<open>\<^verbatim>\<open>validate.errors.map(err => ({ path: ..., message, keyword, params }))\<close>\<close>

definition violation_entry :: "'par ajv_error \<Rightarrow> 'par error_entry" where
  "violation_entry err =
     ViolationEntry (if instancePath err \<noteq> [] then instancePath err else schemaPath err)
       (err_message err) (keyword err) (params err)"

text \<open>
  The schema step. \<open>Inl\<close> is an exception for the handler's \<^verbatim>\<open>catch\<close>; \<open>Inr (Some r)\<close>
  is an early \<^verbatim>\<open>return\<close> of \<open>r\<close>; \<open>Inr None\<close> goes on to the success answer.
\<close>

definition check_schema ::
  "('fm, 'sch, 'par) validate_io \<Rightarrow> jsstring option \<Rightarrow> 'fm \<Rightarrow> world \<Rightarrow>
     (exn + ('fm, 'par) validate_payload response option) \<times> world" where
  "check_schema io schemaUrl frontmatter w =
     (if truthy schemaUrl then
        (let w' = called (Fetch (the schemaUrl)) w
         in case fetch_schema (fetch io (the schemaUrl)) of
              Inl err \<Rightarrow>
                (Inr (Some \<lparr>statusCode = 400,
                            payload = VErrorDetails (js ''Failed to fetch schema'') (message err)\<rparr>),
                 w')
            | Inr schema \<Rightarrow>
                (case ajv_compile io schema of
                   Inl err \<Rightarrow> (Inl err, w')
                 | Inr validate \<Rightarrow>
                     (case validate frontmatter of
                        None \<Rightarrow> (Inr None, w')
                      | Some errors \<Rightarrow>
                          (Inr (Some \<lparr>statusCode = 422,
                                      payload = VInvalid (map violation_entry errors)\<rparr>), w'))))
      else (Inr None, w))"

text \<open>The body of the handler's \<^verbatim>\<open>try\<close> block.\<close>

definition validation ::
  "('fm, 'sch, 'par) validate_io \<Rightarrow> validate_body parsed event \<Rightarrow> world \<Rightarrow>
     (exn + ('fm, 'par) validate_payload response) \<times> world" where
  "validation io ev w =
     (case body ev of
        Throws err \<Rightarrow> (Inl err, w)
      | Parsed b \<Rightarrow>
          if \<not> truthy (v_markdown b) then
            (Inr \<lparr>statusCode = 400, payload = VError (js ''Missing markdown content'')\<rparr>, w)
          else
            (case matter io (the (v_markdown b)) of
               Inl err \<Rightarrow>
                 (Inr \<lparr>statusCode = 422,
                       payload = VInvalid [SyntaxEntry (js ''frontmatter'')
                                   (js ''Invalid YAML frontmatter syntax'') 1 (message err)]\<rparr>, w)
             | Inr (frontmatter, content) \<Rightarrow>
                 (case check_schema io (v_schemaUrl b) frontmatter w of
                    (Inl err, w') \<Rightarrow> (Inl err, w')
                  | (Inr (Some r), w') \<Rightarrow> (Inr r, w')
                  | (Inr None, w') \<Rightarrow>
                      (let preview = md_render io content
                       in (Inr \<lparr>statusCode = 200,
                                 payload = VValid frontmatter content preview
                                             (content_metrics content)\<rparr>, w')))))"

definition validate_handler ::
  "('fm, 'sch, 'par) validate_io \<Rightarrow> validate_body parsed event \<Rightarrow> world \<Rightarrow>
     ('fm, 'par) validate_payload response \<times> world" where
  "validate_handler io ev w =
     (if httpMethod ev = js ''OPTIONS'' then (\<lparr>statusCode = 200, payload = VEmpty\<rparr>, w)
      else if httpMethod ev \<noteq> js ''POST'' then
        (\<lparr>statusCode = 405, payload = VError (js ''Method not allowed'')\<rparr>, w)
      else
        (case validation io ev w of
           (Inr r, w') \<Rightarrow> (r, w')
         | (Inl error, w') \<Rightarrow>
             (\<lparr>statusCode = 500,
               payload = VFailure (js ''Internal server error'') (message error)\<rparr>, w')))"

text \<open>The metrics of a response, when it is the success answer.\<close>

definition reported_metrics :: "('fm, 'par) validate_payload response \<Rightarrow> metrics option" where
  "reported_metrics r = (case payload r of VValid fm content preview m \<Rightarrow> Some m | _ \<Rightarrow> None)"

text \<open>
  The number of white-space-delimited tokens of a text, in the words of the
  specification: the number of places where a token starts, a character that is not white
  space and has no character or a white space before it.
\<close>

definition token_count :: "jsstring \<Rightarrow> nat" where
  "token_count s =
     length (filter (\<lambda>i. \<not> is_space (s ! i) \<and> (i = 0 \<or> is_space (s ! (i - 1)))) [0..<length s])"

text \<open>
  The token starts of a text counted from left to right; \<open>p\<close> tells whether a token
  may start at the first character.
\<close>

fun starts :: "bool \<Rightarrow> jsstring \<Rightarrow> nat" where
  "starts p [] = 0"
| "starts p (c # cs) = (if \<not> is_space c \<and> p then 1 else 0) + starts (is_space c) cs"

section \<open>The frontmatter parser on the documented example\<close>

text \<open>\<^verbatim>\<open>String.prototype.indexOf\<close>\<close>

fun index_of :: "'a list \<Rightarrow> 'a list \<Rightarrow> nat option" where
  "index_of pat [] = (if pat = [] then Some 0 else None)"
| "index_of pat (c # cs) =
     (if prefix pat (c # cs) then Some 0 else map_option Suc (index_of pat cs))"

text \<open>\<^verbatim>\<open>String.prototype.trim\<close>\<close>

definition trim :: "jsstring \<Rightarrow> jsstring" where
  "trim s = rev (dropWhile is_space (rev (dropWhile is_space s)))"

text \<open>One carriage return, then one line feed, are dropped from the start of the body.\<close>

definition strip_newline :: "jsstring \<Rightarrow> jsstring" where
  "strip_newline s =
     (let s1 = (if take 1 s = [0x0D] then drop 1 s else s)
      in if take 1 s1 = [0x0A] then drop 1 s1 else s1)"

text \<open>
  Modelled from the spec: the frontmatter parser \<^verbatim>\<open>matter\<close> is the package gray-matter,
  which is not under src/. The spec has it parse a document into a metadata block,
  embedded at the start of the document, and the body that follows. The delimiters are
  the package's defaults, on a first call for an input: a document that does not open
  with three dashes, or opens with four, has no frontmatter; else the text up to the
  first line break names the language (\<open>yaml\<close> when blank), the block runs to the
  first line that starts with three dashes, and the body is what follows that delimiter,
  less one line break. \<open>parse\<close> is the engine that reads the block, \<open>nodata\<close> the
  data of a document without frontmatter.
\<close>

definition gray_matter ::
  "(jsstring \<Rightarrow> jsstring \<Rightarrow> exn + 'fm) \<Rightarrow> 'fm \<Rightarrow> jsstring \<Rightarrow> exn + ('fm \<times> jsstring)" where
  "gray_matter parse nodata input =
     (if \<not> prefix (js ''---'') input then Inr (nodata, input)
      else if take 1 (drop 3 input) = js ''-'' then Inr (nodata, input)
      else
        (let str = drop 3 input;
             raw = (case index_of [0x0A] str of
                      None \<Rightarrow> butlast str
                    | Some i \<Rightarrow> take (if 0 < i \<and> str ! (i - 1) = 0x0D then i - 1 else i) str);
             name = trim raw;
             language = (if name \<noteq> [] then name else js ''yaml'');
             str' = (if name \<noteq> [] then drop (length raw) str else str);
             close = index_of (0x0A # js ''---'') str';
             block = (case close of None \<Rightarrow> str' | Some i \<Rightarrow> take i str');
             content = (case close of None \<Rightarrow> [] | Some i \<Rightarrow> strip_newline (drop (i + 4) str'))
         in case parse language block of
              Inl err \<Rightarrow> Inl err
            | Inr data \<Rightarrow> Inr (data, content)))"

text \<open>
  A stand-in for the YAML engine on blocks of \<open>key: value\<close> lines, which is what the
  documented example has; it rejects every other block.
\<close>

definition flat_yaml :: "jsstring \<Rightarrow> jsstring \<Rightarrow> exn + (jsstring \<times> jsstring) list" where
  "flat_yaml language block =
     (let lines = filter (\<lambda>l. trim l \<noteq> []) (split_on 0x0A block);
          entries = map (\<lambda>l. case index_of (js '': '') l of
                                None \<Rightarrow> None
                              | Some i \<Rightarrow> Some (take i l, drop (i + 2) l)) lines
      in if language \<noteq> js ''yaml'' \<or> None \<in> set entries
         then Inl (Error (js ''unsupported frontmatter''))
         else Inr (map the entries))"

text \<open>
  A stand-in for the schema validator: a schema is a list of required keys, and there
  is one error for each of them the data lacks.
\<close>

definition the_validator ::
  "jsstring list \<Rightarrow> (jsstring \<times> jsstring) list \<Rightarrow> jsstring ajv_error list option" where
  "the_validator schema data =
     (let missing = filter (\<lambda>k. k \<notin> fst ` set data) schema
      in if missing = [] then None
         else Some (map (\<lambda>k. \<lparr>instancePath = [], schemaPath = js ''#/required'',
                               keyword = js ''required'', params = k,
                               err_message = Some (js ''must have required property'')\<rparr>)
                      missing))"

definition required_keys ::
  "jsstring list \<Rightarrow> exn + ((jsstring \<times> jsstring) list \<Rightarrow> jsstring ajv_error list option)" where
  "required_keys schema = Inr (the_validator schema)"

text \<open>The non-empty segments of a path.\<close>

definition segments :: "'a \<Rightarrow> 'a list \<Rightarrow> 'a list list" where
  "segments sep p = filter (\<lambda>s. s \<noteq> []) (split_on sep p)"

section \<open>Concrete inputs\<close>

definition example_env :: config where
  "example_env =
     \<lparr>AWS_DYNAMODB_TABLE = Some (js ''builds''), GITHUB_ORG = Some (js ''acme''),
      GITHUB_OWNER = None, GITHUB_REPO = Some (js ''site''), SITE_URL = None,
      SERVICE_URL = None, AWS_BUCKET_NAME = None, NODE_ENV = None\<rparr>"

definition example_record :: "jsstring option \<Rightarrow> build_record" where
  "example_record st =
     \<lparr>r_buildId = js ''b1'', r_projectId = Some (js ''docs''), r_status = st,
      r_createdAt = None, r_authorEmail = None, r_title = None, r_slug = None,
      r_fileSize = None, r_ttl = None\<rparr>"

definition example_world :: "jsstring option \<Rightarrow> world" where
  "example_world st =
     \<lparr>db = (\<lambda>t k. if t = js ''builds'' \<and> k = js ''b1'' then Some (example_record st) else None),
      refs = {}, trace = []\<rparr>"

definition example_run :: "string \<Rightarrow> jsstring option \<Rightarrow> jsstring option \<Rightarrow> workflow_run" where
  "example_run b st c =
     \<lparr>head_branch = Some (js b), run_status = st, conclusion = c, html_url = None\<rparr>"

definition example_get :: "string \<Rightarrow> unit event" where
  "example_get p = \<lparr>httpMethod = js ''GET'', path = js p, host = None, body = ()\<rparr>"

definition example_body :: build_body where
  "example_body = \<lparr>b_markdown = Some (js ''# Hi''), b_projectId = Some (js ''docs''), b_metadata = None\<rparr>"

definition example_post :: "build_body parsed event" where
  "example_post =
     \<lparr>httpMethod = js ''POST'', path = js ''/api/build'', host = Some (js ''example.org''),
      body = Parsed example_body\<rparr>"

definition example_build_io :: "string \<Rightarrow> exn option \<Rightarrow> build_io" where
  "example_build_io u fault =
     \<lparr>uuid = js u, now_iso = js ''2026-01-01T00:00:00.000Z'', now_ms = 0, put_fault = fault,
      getRef_reply = Inr (js ''abc1234''), createRef_fault = None,
      getContent_reply = Inl (Error (js ''Not Found'')), createFile_fault = None,
      dispatch_fault = fault\<rparr>"

text \<open>Two dispatches of the same request, one after the other.\<close>

definition first_dispatch :: "build_payload response \<times> world" where
  "first_dispatch =
     build_handler example_env (example_build_io ''u1'' None) example_post (example_world None)"


text \<open>
  The document of the specification's example: a frontmatter of three lines and the body
  \<open># Hi\<close>.
\<close>

definition example_document :: jsstring where
  "example_document =
     js ''---'' @ 0x0A # js ''title: T'' @ 0x0A # js ''category: example'' @ 0x0A
       # js ''layout: content.njk'' @ 0x0A # js ''---'' @ 0x0A # js ''# Hi''"

definition example_validate_io ::
  "((jsstring \<times> jsstring) list, jsstring list, jsstring) validate_io" where
  "example_validate_io =
     \<lparr>matter = gray_matter flat_yaml [],
      fetch = (\<lambda>url. FetchResponse True 200 (Inr [js ''title'', js ''date'', js ''author''])),
      ajv_compile = required_keys,
      md_render = (\<lambda>content. content)\<rparr>"

definition example_validate :: "jsstring option \<Rightarrow> jsstring option \<Rightarrow> validate_body parsed event" where
  "example_validate markdown schemaUrl =
     \<lparr>httpMethod = js ''POST'', path = js ''/api/validate'', host = None,
      body = Parsed \<lparr>v_markdown = markdown, v_schemaUrl = schemaUrl\<rparr>\<rparr>"

section \<open>Properties of the Status Reconciler\<close>

lemma js_inj: "inj js"
proof -
  have "inj (\<lambda>c. word_of_nat (of_char c) :: 16 word)"
  proof (rule injI)
    fix a b :: char
    assume e: "(word_of_nat (of_char a) :: 16 word) = word_of_nat (of_char b)"
    have a: "(of_char a :: nat) < 2 ^ 16"
      by (rule less_trans [OF nat_of_char_less_256]) simp
    have b: "(of_char b :: nat) < 2 ^ 16"
      by (rule less_trans [OF nat_of_char_less_256]) simp
    from e a b have "(of_char a :: nat) = of_char b"
      by (simp add: word_of_nat_eq_iff take_bit_nat_eq_self)
    then show "a = b" by simp
  qed
  then show ?thesis unfolding js_def by (simp add: inj_mapI)
qed

lemma js_eq_iff: "js a = js b \<longleftrightarrow> a = b"
  using js_inj by (auto dest: injD)

lemma js_Nil_iff: "js a = [] \<longleftrightarrow> a = []"
  by (simp add: js_def)

lemma js_Cons: "js (c # cs) = word_of_nat (of_char c) # js cs"
  by (simp add: js_def)

lemma js_append: "js (a @ b) = js a @ js b"
  by (simp add: js_def)

lemma split_on_nonempty: "split_on sep xs \<noteq> []"
  by (induction xs) (auto split: list.splits)

lemma split_on_append: "split_on sep (xs @ sep # ys) = split_on sep xs @ split_on sep ys"
  by (induction xs) (auto split: list.splits simp: split_on_nonempty)

lemma split_on_notin: "sep \<notin> set xs \<Longrightarrow> split_on sep xs = [xs]"
  by (induction xs) auto

lemma segments_all_sep: "segments sep p = [] \<longleftrightarrow> (\<forall>c\<in>set p. c = sep)"
  unfolding segments_def
  by (induction p) (auto split: list.splits simp: split_on_nonempty)

lemma segments_append: "segments sep (xs @ sep # ys) = segments sep xs @ segments sep ys"
  by (simp add: segments_def split_on_append)

lemma segments_single: "seg \<noteq> [] \<Longrightarrow> sep \<notin> set seg \<Longrightarrow> segments sep seg = [seg]"
  by (simp add: segments_def split_on_notin)

lemma segments_tail:
  assumes "seg \<noteq> []" "sep \<notin> set seg" "\<forall>c\<in>set post. c = sep"
  shows "segments sep (seg @ post) = [seg]"
proof (cases post)
  case Nil
  with assms show ?thesis by (simp add: segments_single)
next
  case (Cons c cs)
  with assms have c: "c = sep" and cs: "\<forall>c\<in>set cs. c = sep" by auto
  have e: "segments sep cs = []" using cs by (simp add: segments_all_sep)
  have "segments sep (seg @ sep # cs) = segments sep seg @ segments sep cs"
    by (rule segments_append)
  then show ?thesis
    using assms(1,2) e by (simp add: Cons c segments_single)
qed

lemma pop_segments_last:
  assumes "seg \<noteq> []" "sep \<notin> set seg" "\<forall>c\<in>set post. c = sep" "pre = [] \<or> last pre = sep"
  shows "pop (segments sep (pre @ seg @ post)) = Some seg"
proof (cases "pre = []")
  case True
  then show ?thesis using segments_tail [OF assms(1-3)] by (simp add: pop_def)
next
  case False
  with assms(4) obtain pre' where pre: "pre = pre' @ [sep]"
    by (metis append_butlast_last_id)
  have "segments sep (pre' @ sep # (seg @ post)) = segments sep pre' @ segments sep (seg @ post)"
    by (rule segments_append)
  then have "segments sep (pre @ seg @ post) = segments sep pre' @ [seg]"
    using segments_tail [OF assms(1-3)] by (simp add: pre)
  then show ?thesis by (simp add: pop_def)
qed

lemma extract_buildId_last:
  assumes "seg \<noteq> []" "0x2F \<notin> set seg" "\<forall>c\<in>set post. c = 0x2F" "pre = [] \<or> last pre = 0x2F"
  shows "extract_buildId (pre @ seg @ post) = Some seg"
  using pop_segments_last [OF assms] by (simp add: extract_buildId_def segments_def)

lemma extract_buildId_None: "extract_buildId p = None \<longleftrightarrow> (\<forall>c\<in>set p. c = 0x2F)"
  using segments_all_sep [of "0x2F :: 16 word" p]
  by (simp add: extract_buildId_def segments_def pop_def)

lemma reconcile_code: "statusCode (fst (reconcile env io b w)) \<noteq> 400"
  by (simp add: reconcile_def Let_def split: prod.splits option.splits)

lemma js_GET_not_OPTIONS: "js ''GET'' \<noteq> js ''OPTIONS''"
  by (simp add: js_def)

lemma handler_GET:
  "httpMethod ev = js ''GET'' \<Longrightarrow>
   build_status_handler env io ev w =
     (case extract_buildId (path ev) of
        None \<Rightarrow> (\<lparr>statusCode = 400, payload = SError (js ''Build ID required'')\<rparr>, w)
      | Some buildId \<Rightarrow> reconcile env io buildId w)"
  by (simp add: build_status_handler_def js_GET_not_OPTIONS)

lemma lookup_build_cases:
  "lookup_build env io b w =
     (if truthy (AWS_DYNAMODB_TABLE env)
      then (if get_fault io = None then db w (the (AWS_DYNAMODB_TABLE env)) b else None,
            called (DynamoGet (the (AWS_DYNAMODB_TABLE env)) b) w)
      else (None, w))"
  by (simp add: lookup_build_def dynamodb_get_def split: option.splits)

lemma find_workflow_db: "db (snd (find_workflow env io b w)) = db w"
  by (simp add: find_workflow_def Let_def called_def split: sum.splits)

lemma lookup_build_db: "db (snd (lookup_build env io b w)) = db w"
  by (simp add: lookup_build_cases called_def)

lemma reconcile_world:
  "snd (reconcile env io b w) =
     (case fst (lookup_build env io b w) of
        None \<Rightarrow> snd (lookup_build env io b w)
      | Some bd \<Rightarrow> snd (find_workflow env io b (snd (lookup_build env io b w))))"
  by (simp add: reconcile_def Let_def split: prod.splits option.splits)

lemma reconcile_db: "db (snd (reconcile env io b w)) = db w"
  by (simp add: reconcile_world find_workflow_db lookup_build_db split: option.splits)

text \<open>
  Claim C9. The Status Reconciler never mutates the stored record: whatever the request, the
  configuration and the answers of the external services, the record store after the
  request is the record store before it. A status that differs from the stored one exists
  in the response only.
\<close>

theorem status_never_mutates: "db (snd (build_status_handler env io ev w)) = db w"
  by (simp add: build_status_handler_def reconcile_db split: option.splits)

text \<open>
  Claim C2. A GET request whose \<open>buildId\<close> has no stored record (no table configured,
  the lookup fails, or the table holds nothing under that key) is answered 404
  \<open>Build not found\<close>, and the lookup, when there is a table, is the only external
  call made: the workflow runs are not listed, whatever the CI provider would answer.
\<close>

theorem missing_record_404:
  assumes "httpMethod ev = js ''GET''" and "extract_buildId (path ev) = Some buildId"
    and "\<not> truthy (AWS_DYNAMODB_TABLE env) \<or> get_fault io \<noteq> None
         \<or> db w (the (AWS_DYNAMODB_TABLE env)) buildId = None"
  shows "fst (build_status_handler env io ev w) =
           \<lparr>statusCode = 404, payload = SError (js ''Build not found'')\<rparr>
         \<and> trace (snd (build_status_handler env io ev w)) =
             trace w @ (if truthy (AWS_DYNAMODB_TABLE env)
                        then [DynamoGet (the (AWS_DYNAMODB_TABLE env)) buildId] else [])"
proof -
  have "fst (lookup_build env io buildId w) = None"
    using assms(3) by (auto simp add: lookup_build_cases)
  then show ?thesis
    using assms(1,2)
    by (simp add: handler_GET reconcile_def split: prod.splits)
      (auto simp add: lookup_build_cases called_def split: if_splits)
qed

lemma example_extract: "extract_buildId (path (example_get ''/api/build/b1'')) = Some (js ''b1'')"
  by (simp add: example_get_def extract_buildId_def pop_def js_def)

theorem missing_record_404_witness:
  "fst (build_status_handler example_env
         \<lparr>get_fault = Some (Error (js ''timeout'')),
          runs_reply = Inr [example_run ''build/b1'' (Some (js ''completed'')) (Some (js ''success''))]\<rparr>
         (example_get ''/api/build/b1'') (example_world (Some (js ''queued''))))
     = \<lparr>statusCode = 404, payload = SError (js ''Build not found'')\<rparr>
   \<and> trace (snd (build_status_handler example_env
         \<lparr>get_fault = Some (Error (js ''timeout'')),
          runs_reply = Inr [example_run ''build/b1'' (Some (js ''completed'')) (Some (js ''success''))]\<rparr>
         (example_get ''/api/build/b1'') (example_world (Some (js ''queued'')))))
     = [DynamoGet (js ''builds'') (js ''b1'')]"
  using missing_record_404 [of "example_get ''/api/build/b1''" "js ''b1''" example_env
      "\<lparr>get_fault = Some (Error (js ''timeout'')),
        runs_reply = Inr [example_run ''build/b1'' (Some (js ''completed'')) (Some (js ''success''))]\<rparr>"
      "example_world (Some (js ''queued''))"]
    example_extract
  by (simp add: example_env_def example_world_def example_get_def truthy_def js_Nil_iff)

lemma reconcile_found:
  assumes "fst (lookup_build env io b w) = Some bd"
    and "workflow_state (fst (find_workflow env io b (snd (lookup_build env io b w)))) = (ws, wc, url)"
  shows "statusCode (fst (reconcile env io b w)) = 200"
    and "reported_status (fst (reconcile env io b w)) = final_status bd ws wc"
  using assms
  by (simp_all add: reconcile_def reported_status_def Let_def case_prod_beta)

lemma find_workflow_fst: "fst (find_workflow env io b w) = fst (find_workflow env io b w')"
  by (simp add: find_workflow_def Let_def split: sum.splits)

lemma final_status_cases:
  "final_status bd ws wc =
     (if ws = Some (js ''completed'') then
        (if wc = Some (js ''success'') then Some (js ''completed'') else Some (js ''failed''))
      else if ws = Some (js ''in_progress'') then Some (js ''building'')
      else if r_status bd = None \<or> r_status bd = Some [] then Some (js ''queued'')
      else r_status bd)"
  by (cases "r_status bd") (simp_all add: final_status_def js_or_def truthy_def)

lemma js_in_progress_not_completed: "js ''in_progress'' \<noteq> js ''completed''"
  by (simp add: js_def)

text \<open>The rule for any stored status: an empty one also gives \<open>queued\<close>.\<close>

lemma final_status_any_string:
  assumes "httpMethod ev = js ''GET''" and "extract_buildId (path ev) = Some buildId"
    and "truthy (AWS_DYNAMODB_TABLE env)" and "get_fault io = None"
    and "db w (the (AWS_DYNAMODB_TABLE env)) buildId = Some buildData"
    and "workflow_state (fst (find_workflow env io buildId w')) = (ws, wc, url)"
  shows "statusCode (fst (build_status_handler env io ev w)) = 200
     \<and> (ws = Some (js ''completed'') \<and> wc = Some (js ''success'') \<longrightarrow>
          reported_status (fst (build_status_handler env io ev w)) = Some (js ''completed''))
     \<and> (ws = Some (js ''completed'') \<and> wc \<noteq> Some (js ''success'') \<longrightarrow>
          reported_status (fst (build_status_handler env io ev w)) = Some (js ''failed''))
     \<and> (ws = Some (js ''in_progress'') \<longrightarrow>
          reported_status (fst (build_status_handler env io ev w)) = Some (js ''building''))
     \<and> (ws \<noteq> Some (js ''completed'') \<and> ws \<noteq> Some (js ''in_progress'') \<longrightarrow>
          reported_status (fst (build_status_handler env io ev w)) =
            (if r_status buildData = None \<or> r_status buildData = Some []
             then Some (js ''queued'') else r_status buildData))"
proof -
  have l: "fst (lookup_build env io buildId w) = Some buildData"
    using assms(3-5) by (simp add: lookup_build_cases)
  have f: "workflow_state (fst (find_workflow env io buildId (snd (lookup_build env io buildId w))))
             = (ws, wc, url)"
    using assms(6) find_workflow_fst [of env io buildId "snd (lookup_build env io buildId w)" w']
    by simp
  have h: "build_status_handler env io ev w = reconcile env io buildId w"
    using assms(1,2) by (simp add: handler_GET)
  show ?thesis
    unfolding h reconcile_found [OF l f] final_status_cases
    using js_in_progress_not_completed by simp
qed

lemma status_values_nonempty: "s \<in> status_values \<Longrightarrow> s \<noteq> []"
  by (auto simp add: status_values_def js_def)

text \<open>
  Claim C1. For a GET request whose record exists, the stored status being absent or one
  of the values of the data model, with \<open>ws\<close> and \<open>wc\<close> the status and conclusion of
  the matched run: the answer is 200; its status is \<open>completed\<close> when \<open>ws\<close> is
  \<open>completed\<close> and \<open>wc\<close> is \<open>success\<close>, \<open>failed\<close> when \<open>ws\<close> is \<open>completed\<close>
  and \<open>wc\<close> is anything else, else \<open>building\<close> when \<open>ws\<close> is \<open>in_progress\<close>, and
  in every other case the stored status, or \<open>queued\<close> when the record has none. No
  matching run is such a case: \<open>ws\<close> is then \<open>unknown\<close>.
\<close>

theorem final_status_rule:
  assumes "httpMethod ev = js ''GET''" and "extract_buildId (path ev) = Some buildId"
    and "truthy (AWS_DYNAMODB_TABLE env)" and "get_fault io = None"
    and "db w (the (AWS_DYNAMODB_TABLE env)) buildId = Some buildData"
    and "\<forall>s. r_status buildData = Some s \<longrightarrow> s \<in> status_values"
    and "workflow_state (fst (find_workflow env io buildId w')) = (ws, wc, url)"
  shows "statusCode (fst (build_status_handler env io ev w)) = 200
     \<and> (ws = Some (js ''completed'') \<and> wc = Some (js ''success'') \<longrightarrow>
          reported_status (fst (build_status_handler env io ev w)) = Some (js ''completed''))
     \<and> (ws = Some (js ''completed'') \<and> wc \<noteq> Some (js ''success'') \<longrightarrow>
          reported_status (fst (build_status_handler env io ev w)) = Some (js ''failed''))
     \<and> (ws \<noteq> Some (js ''completed'') \<and> ws = Some (js ''in_progress'') \<longrightarrow>
          reported_status (fst (build_status_handler env io ev w)) = Some (js ''building''))
     \<and> (ws \<noteq> Some (js ''completed'') \<and> ws \<noteq> Some (js ''in_progress'') \<longrightarrow>
          reported_status (fst (build_status_handler env io ev w)) =
            (case r_status buildData of None \<Rightarrow> Some (js ''queued'') | Some s \<Rightarrow> Some s))
     \<and> (fst (find_workflow env io buildId w') = None \<longrightarrow>
          ws = Some (js ''unknown'')
          \<and> reported_status (fst (build_status_handler env io ev w)) =
               (case r_status buildData of None \<Rightarrow> Some (js ''queued'') | Some s \<Rightarrow> Some s))"
proof -
  have g: "statusCode (fst (build_status_handler env io ev w)) = 200
     \<and> (ws = Some (js ''completed'') \<and> wc = Some (js ''success'') \<longrightarrow>
          reported_status (fst (build_status_handler env io ev w)) = Some (js ''completed''))
     \<and> (ws = Some (js ''completed'') \<and> wc \<noteq> Some (js ''success'') \<longrightarrow>
          reported_status (fst (build_status_handler env io ev w)) = Some (js ''failed''))
     \<and> (ws = Some (js ''in_progress'') \<longrightarrow>
          reported_status (fst (build_status_handler env io ev w)) = Some (js ''building''))
     \<and> (ws \<noteq> Some (js ''completed'') \<and> ws \<noteq> Some (js ''in_progress'') \<longrightarrow>
          reported_status (fst (build_status_handler env io ev w)) =
            (if r_status buildData = None \<or> r_status buildData = Some []
             then Some (js ''queued'') else r_status buildData))"
    by (rule final_status_any_string [OF assms(1-5) assms(7)])
  have s: "(if r_status buildData = None \<or> r_status buildData = Some []
            then Some (js ''queued'') else r_status buildData)
         = (case r_status buildData of None \<Rightarrow> Some (js ''queued'') | Some s \<Rightarrow> Some s)"
    using assms(6) status_values_nonempty by (cases "r_status buildData") auto
  have u: "fst (find_workflow env io buildId w') = None \<Longrightarrow> ws = Some (js ''unknown'')"
    using assms(7) by (simp add: workflow_state_def)
  have n: "js ''unknown'' \<noteq> js ''completed''" "js ''unknown'' \<noteq> js ''in_progress''"
    by (simp_all add: js_eq_iff)
  show ?thesis using g u n unfolding s by auto
qed

lemma example_record_in_domain:
  "st = None \<or> st = Some (js ''queued'') \<or> st = Some (js ''building'') \<Longrightarrow>
   \<forall>s. r_status (example_record st) = Some s \<longrightarrow> s \<in> status_values"
  by (auto simp add: example_record_def status_values_def)

theorem final_status_rule_witness:
  "reported_status (fst (build_status_handler example_env
      \<lparr>get_fault = None,
       runs_reply = Inr [example_run ''main'' (Some (js ''completed'')) (Some (js ''success'')),
                         example_run ''build/b1'' (Some (js ''completed'')) (Some (js ''failure''))]\<rparr>
      (example_get ''/api/build/b1'') (example_world (Some (js ''queued''))))) = Some (js ''failed'')
   \<and> reported_status (fst (build_status_handler example_env
      \<lparr>get_fault = None,
       runs_reply = Inr [example_run ''main'' (Some (js ''completed'')) (Some (js ''success''))]\<rparr>
      (example_get ''/api/build/b1'') (example_world (Some (js ''building''))))) = Some (js ''building'')
   \<and> reported_status (fst (build_status_handler example_env
      \<lparr>get_fault = None, runs_reply = Inl (Error (js ''rate limit''))\<rparr>
      (example_get ''/api/build/b1'') (example_world None))) = Some (js ''queued'')"
  using final_status_rule [where ev = "example_get ''/api/build/b1''" and buildId = "js ''b1''"
      and env = example_env
      and io = "\<lparr>get_fault = None,
       runs_reply = Inr [example_run ''main'' (Some (js ''completed'')) (Some (js ''success'')),
                         example_run ''build/b1'' (Some (js ''completed'')) (Some (js ''failure''))]\<rparr>"
      and w = "example_world (Some (js ''queued''))"
      and buildData = "example_record (Some (js ''queued''))"
      and w' = "example_world None" and ws = "Some (js ''completed'')"
      and wc = "Some (js ''failure'')" and url = None]
    final_status_rule [where ev = "example_get ''/api/build/b1''" and buildId = "js ''b1''"
      and env = example_env
      and io = "\<lparr>get_fault = None,
       runs_reply = Inr [example_run ''main'' (Some (js ''completed'')) (Some (js ''success''))]\<rparr>"
      and w = "example_world (Some (js ''building''))"
      and buildData = "example_record (Some (js ''building''))"
      and w' = "example_world None" and ws = "Some (js ''unknown'')"
      and wc = None and url = None]
    final_status_rule [where ev = "example_get ''/api/build/b1''" and buildId = "js ''b1''"
      and env = example_env
      and io = "\<lparr>get_fault = None, runs_reply = Inl (Error (js ''rate limit''))\<rparr>"
      and w = "example_world None"
      and buildData = "example_record None"
      and w' = "example_world None" and ws = "Some (js ''unknown'')"
      and wc = None and url = None]
    example_extract
    example_record_in_domain [of "Some (js ''queued'')"]
    example_record_in_domain [of "Some (js ''building'')"]
    example_record_in_domain [of None]
  by (simp add: example_env_def example_world_def example_get_def example_run_def
      find_workflow_def workflow_state_def truthy_def js_or_def js_eq_iff js_Nil_iff
      js_append [symmetric])
    (simp add: example_record_def)

lemma reconcile_lookup_trace:
  "truthy (AWS_DYNAMODB_TABLE env) \<Longrightarrow>
   prefix (trace w @ [DynamoGet (the (AWS_DYNAMODB_TABLE env)) b]) (trace (snd (reconcile env io b w)))"
  by (simp add: reconcile_world lookup_build_cases find_workflow_def Let_def called_def
      split: option.splits sum.splits)

lemma reconcile_workflow:
  assumes "truthy (AWS_DYNAMODB_TABLE env)" and "get_fault io = None"
    and "db w (the (AWS_DYNAMODB_TABLE env)) b = Some bd"
    and "truthy (js_or (GITHUB_ORG env) (GITHUB_OWNER env))" and "truthy (GITHUB_REPO env)"
    and "runs_reply io = Inr runs"
  shows "\<exists>rep. payload (fst (reconcile env io b w)) = SReport rep
     \<and> (s_workflow_status rep, s_workflow_conclusion rep, s_workflow_url rep) =
         workflow_state (find (\<lambda>r. head_branch r = Some (js ''build/'' @ b)) runs)"
  using assms
  by (simp add: reconcile_def lookup_build_cases find_workflow_def Let_def case_prod_beta)

text \<open>
  Claim C10. For a GET request, 400 \<open>Build ID required\<close> is the answer exactly when the
  path has no non-empty segment (it consists of slashes only). When the path is
  \<open>pre @ seg @ post\<close> with \<open>seg\<close> its last non-empty segment, the handler does what
  it does for the \<open>buildId\<close> \<open>seg\<close>, whatever \<open>pre\<close> is: the record lookup has the
  key \<open>seg\<close>, and the run reported is the first one listed on the branch
  \<open>build/seg\<close>. (For the path \<open>/api/build/b1/status\<close> that segment is \<open>status\<close>.)
\<close>

theorem buildId_is_last_path_segment:
  assumes "httpMethod ev = js ''GET''"
  shows "(fst (build_status_handler env io ev w) =
            \<lparr>statusCode = 400, payload = SError (js ''Build ID required'')\<rparr>
          \<longleftrightarrow> (\<forall>c\<in>set (path ev). c = 0x2F))
     \<and> (path ev = pre @ seg @ post \<and> seg \<noteq> [] \<and> 0x2F \<notin> set seg
          \<and> (pre = [] \<or> last pre = 0x2F) \<and> (\<forall>c\<in>set post. c = 0x2F) \<longrightarrow>
         build_status_handler env io ev w = reconcile env io seg w
         \<and> (truthy (AWS_DYNAMODB_TABLE env) \<longrightarrow>
              prefix (trace w @ [DynamoGet (the (AWS_DYNAMODB_TABLE env)) seg])
                (trace (snd (build_status_handler env io ev w))))
         \<and> (\<forall>bd runs. truthy (AWS_DYNAMODB_TABLE env) \<and> get_fault io = None
              \<and> db w (the (AWS_DYNAMODB_TABLE env)) seg = Some bd
              \<and> truthy (js_or (GITHUB_ORG env) (GITHUB_OWNER env)) \<and> truthy (GITHUB_REPO env)
              \<and> runs_reply io = Inr runs \<longrightarrow>
              (\<exists>rep. payload (fst (build_status_handler env io ev w)) = SReport rep
                 \<and> (s_workflow_status rep, s_workflow_conclusion rep, s_workflow_url rep) =
                     workflow_state (find (\<lambda>r. head_branch r = Some (js ''build/'' @ seg)) runs))))"
proof (intro conjI impI)
  show "fst (build_status_handler env io ev w) =
            \<lparr>statusCode = 400, payload = SError (js ''Build ID required'')\<rparr>
          \<longleftrightarrow> (\<forall>c\<in>set (path ev). c = 0x2F)"
  proof (cases "extract_buildId (path ev)")
    case None
    then show ?thesis
      using assms extract_buildId_None [of "path ev"] by (simp add: handler_GET)
  next
    case (Some b)
    have "fst (reconcile env io b w) \<noteq> \<lparr>statusCode = 400, payload = SError (js ''Build ID required'')\<rparr>"
      using reconcile_code [of env io b w] by auto
    then show ?thesis
      using assms Some extract_buildId_None [of "path ev"] by (simp add: handler_GET)
  qed
next
  assume p: "path ev = pre @ seg @ post \<and> seg \<noteq> [] \<and> 0x2F \<notin> set seg
          \<and> (pre = [] \<or> last pre = 0x2F) \<and> (\<forall>c\<in>set post. c = 0x2F)"
  then have "extract_buildId (path ev) = Some seg"
    using extract_buildId_last [of seg post pre] by simp
  then have h: "build_status_handler env io ev w = reconcile env io seg w"
    using assms by (simp add: handler_GET)
  show "build_status_handler env io ev w = reconcile env io seg w" by (rule h)
  show "truthy (AWS_DYNAMODB_TABLE env) \<Longrightarrow>
        prefix (trace w @ [DynamoGet (the (AWS_DYNAMODB_TABLE env)) seg])
                (trace (snd (build_status_handler env io ev w)))"
    unfolding h by (rule reconcile_lookup_trace)
  show "\<forall>bd runs. truthy (AWS_DYNAMODB_TABLE env) \<and> get_fault io = None
              \<and> db w (the (AWS_DYNAMODB_TABLE env)) seg = Some bd
              \<and> truthy (js_or (GITHUB_ORG env) (GITHUB_OWNER env)) \<and> truthy (GITHUB_REPO env)
              \<and> runs_reply io = Inr runs \<longrightarrow>
              (\<exists>rep. payload (fst (build_status_handler env io ev w)) = SReport rep
                 \<and> (s_workflow_status rep, s_workflow_conclusion rep, s_workflow_url rep) =
                     workflow_state (find (\<lambda>r. head_branch r = Some (js ''build/'' @ seg)) runs))"
    unfolding h using reconcile_workflow [of env io w seg] by blast
qed

theorem buildId_is_last_path_segment_witness:
  "build_status_handler example_env \<lparr>get_fault = None, runs_reply = Inr []\<rparr>
     (example_get ''/api/build/b1/status'') (example_world None)
   = reconcile example_env \<lparr>get_fault = None, runs_reply = Inr []\<rparr> (js ''status'') (example_world None)
   \<and> fst (build_status_handler example_env \<lparr>get_fault = None, runs_reply = Inr []\<rparr>
          (example_get ''//'') (example_world None))
     = \<lparr>statusCode = 400, payload = SError (js ''Build ID required'')\<rparr>"
  using buildId_is_last_path_segment [where ev = "example_get ''/api/build/b1/status''"
      and env = example_env and io = "\<lparr>get_fault = None, runs_reply = Inr []\<rparr>"
      and w = "example_world None" and pre = "js ''/api/build/b1/''" and seg = "js ''status''"
      and post = "[]"]
    buildId_is_last_path_segment [where ev = "example_get ''//''"
      and env = example_env and io = "\<lparr>get_fault = None, runs_reply = Inr []\<rparr>"
      and w = "example_world None" and pre = "[]" and seg = "[]" and post = "[]"]
  by (simp add: example_get_def js_append [symmetric] js_eq_iff js_Nil_iff)
    (simp add: js_def)

section \<open>Properties of the Build Dispatcher\<close>

lemma js_POST_not_OPTIONS: "js ''POST'' \<noteq> js ''OPTIONS''"
  by (simp add: js_eq_iff)

lemma build_handler_POST:
  "httpMethod ev = js ''POST'' \<Longrightarrow>
   build_handler env io ev w =
     (case dispatch env io ev w of
        (Inr r, w') \<Rightarrow> (r, w')
      | (Inl error, w') \<Rightarrow>
          (\<lparr>statusCode = 500,
            payload = BFailure (js ''Build trigger failed'') (message error)
                        (NODE_ENV env = Some (js ''development''))\<rparr>, w'))"
  by (simp add: build_handler_def js_POST_not_OPTIONS)

lemma dispatch_accepted:
  assumes "body ev = Parsed b" and "truthy (b_markdown b)" and "truthy (b_projectId b)"
    and "truthy (js_or (GITHUB_ORG env) (GITHUB_OWNER env))" and "truthy (GITHUB_REPO env)"
    and "getRef_reply io = Inr sha" and "createRef_fault io = None"
    and "createFile_fault io = None"
  shows "\<exists>a. fst (dispatch env io ev w) = Inr \<lparr>statusCode = 202, payload = BAccepted a\<rparr>
           \<and> a_status a = js ''queued'' \<and> a_buildId a = uuid io
           \<and> a_branchName a = js ''build/'' @ uuid io
           \<and> fst (dispatch env (io\<lparr>put_fault := pf, dispatch_fault := df\<rparr>) ev w)
               = fst (dispatch env io ev w)"
  using assms
  by (simp add: dispatch_def git_createRef_def Let_def)

lemma build_handler_fst:
  "httpMethod ev = js ''POST'' \<Longrightarrow>
   fst (build_handler env io ev w) =
     (case fst (dispatch env io ev w) of
        Inr r \<Rightarrow> r
      | Inl error \<Rightarrow>
          \<lparr>statusCode = 500,
           payload = BFailure (js ''Build trigger failed'') (message error)
                       (NODE_ENV env = Some (js ''development''))\<rparr>)"
  by (simp add: build_handler_POST split: prod.splits sum.splits)

text \<open>
  Claim C3. A POST whose body has a markdown text and a project identifier, with the
  repository configured, for which the ref resolution, the branch creation and the file
  commit succeed, is answered 202 with status \<open>queued\<close>, the generated \<open>buildId\<close> and
  the branch name \<open>build/buildId\<close>. The answer is the same whatever the outcomes
  \<open>pf\<close> of storing the record and \<open>df\<close> of the workflow dispatch are.
\<close>

theorem optional_failures_are_swallowed:
  assumes "httpMethod ev = js ''POST''" and "body ev = Parsed b"
    and "truthy (b_markdown b)" and "truthy (b_projectId b)"
    and "truthy (js_or (GITHUB_ORG env) (GITHUB_OWNER env))" and "truthy (GITHUB_REPO env)"
    and "getRef_reply io = Inr sha" and "createRef_fault io = None"
    and "createFile_fault io = None"
  shows "statusCode (fst (build_handler env io ev w)) = 202
     \<and> map_option a_status (accepted (fst (build_handler env io ev w))) = Some (js ''queued'')
     \<and> map_option a_buildId (accepted (fst (build_handler env io ev w))) = Some (uuid io)
     \<and> map_option a_branchName (accepted (fst (build_handler env io ev w)))
         = Some (js ''build/'' @ uuid io)
     \<and> fst (build_handler env (io\<lparr>put_fault := pf, dispatch_fault := df\<rparr>) ev w)
         = fst (build_handler env io ev w)"
proof -
  obtain a where a: "fst (dispatch env io ev w) = Inr \<lparr>statusCode = 202, payload = BAccepted a\<rparr>"
    and f: "a_status a = js ''queued''" "a_buildId a = uuid io"
      "a_branchName a = js ''build/'' @ uuid io"
    and i: "fst (dispatch env (io\<lparr>put_fault := pf, dispatch_fault := df\<rparr>) ev w)
              = fst (dispatch env io ev w)"
    using dispatch_accepted [OF assms(2-9), where w = w and pf = pf and df = df] by blast
  show ?thesis
    using a f i by (simp add: build_handler_fst [OF assms(1)] accepted_def)
qed

lemma example_request_hyps:
  "httpMethod example_post = js ''POST''"
  "body example_post = Parsed example_body"
  "truthy (b_markdown example_body)"
  "truthy (b_projectId example_body)"
  "truthy (js_or (GITHUB_ORG example_env) (GITHUB_OWNER example_env))"
  "truthy (GITHUB_REPO example_env)"
  by (simp_all add: example_post_def example_body_def example_env_def
      truthy_def js_or_def js_Nil_iff)

lemma example_io_hyps:
  "getRef_reply (example_build_io u f) = Inr (js ''abc1234'')"
  "createRef_fault (example_build_io u f) = None"
  "createFile_fault (example_build_io u f) = None"
  by (simp_all add: example_build_io_def)

theorem optional_failures_are_swallowed_witness:
  "statusCode (fst (build_handler example_env (example_build_io ''u1'' (Some (Error (js ''down''))))
      example_post (example_world None))) = 202
   \<and> map_option a_buildId (accepted (fst (build_handler example_env
        (example_build_io ''u1'' (Some (Error (js ''down'')))) example_post (example_world None))))
      = Some (js ''u1'')
   \<and> fst (build_handler example_env (example_build_io ''u1'' None) example_post (example_world None))
      = fst (build_handler example_env (example_build_io ''u1'' (Some (Error (js ''down''))))
          example_post (example_world None))"
  using optional_failures_are_swallowed [OF example_request_hyps
        example_io_hyps [of "''u1''" "Some (Error (js ''down''))"],
      where w = "example_world None" and pf = None and df = None]
  by (simp add: example_build_io_def)

lemma dispatch_rejected:
  assumes "body ev = Parsed b" and "truthy (b_markdown b)" and "truthy (b_projectId b)"
    and "\<not> truthy (js_or (GITHUB_ORG env) (GITHUB_OWNER env)) \<or> \<not> truthy (GITHUB_REPO env)
         \<or> isl (getRef_reply io) \<or> createRef_fault io \<noteq> None \<or> createFile_fault io \<noteq> None"
  shows "isl (fst (dispatch env io ev w))"
proof (cases "\<not> truthy (js_or (GITHUB_ORG env) (GITHUB_OWNER env)) \<or> \<not> truthy (GITHUB_REPO env)")
  case True
  with assms(1-3) show ?thesis by (auto simp add: dispatch_def git_createRef_def Let_def)
next
  case cfg: False
  show ?thesis
  proof (cases "getRef_reply io")
    case (Inl e)
    with assms(1-3) cfg show ?thesis by (simp add: dispatch_def git_createRef_def Let_def)
  next
    case (Inr sha)
    show ?thesis
    proof (cases "createRef_fault io")
      case (Some e)
      with assms(1-3) cfg Inr show ?thesis by (simp add: dispatch_def git_createRef_def Let_def)
    next
      case None
      with assms(4) cfg Inr obtain e where "createFile_fault io = Some e" by auto
      with assms(1-3) cfg Inr None show ?thesis by (simp add: dispatch_def git_createRef_def Let_def)
    qed
  qed
qed



text \<open>
  Unlike the reconciler, the dispatcher writes the store: with a table configured and the
  put succeeding, the record of the new build is there after the dispatch, whatever the
  repository calls do.
\<close>

lemma db_called: "db (called c w) = db w"
  by (simp add: called_def)

lemma store_metadata_writes:
  assumes "truthy (AWS_DYNAMODB_TABLE env)" and "put_fault io = None"
  shows "db (store_metadata env io item w) (the (AWS_DYNAMODB_TABLE env)) (r_buildId item) = Some item"
  using assms by (simp add: store_metadata_def dynamodb_put_def db_called)

lemma dispatch_keeps_after_store:
  assumes "body ev = Parsed b" and "truthy (b_markdown b)" and "truthy (b_projectId b)"
  shows "db (snd (dispatch env io ev w)) =
           db (store_metadata env io
                 (new_record io (the (b_markdown b)) (the (b_projectId b)) (b_metadata b)
                    (the (js_or (opt_chain (b_metadata b) m_title) (Some (js ''Untitled''))))
                    (the (js_or (opt_chain (b_metadata b) m_slug) (Some (js ''index''))))) w)"
  using assms
  by (simp add: dispatch_def git_createRef_def Let_def db_called split: sum.splits option.splits)

lemma build_handler_snd:
  "httpMethod ev = js ''POST'' \<Longrightarrow> snd (build_handler env io ev w) = snd (dispatch env io ev w)"
  by (simp add: build_handler_POST split: prod.splits sum.splits)

lemma dispatcher_writes_record:
  assumes "httpMethod ev = js ''POST''" and "body ev = Parsed b"
    and "truthy (b_markdown b)" and "truthy (b_projectId b)"
    and "truthy (AWS_DYNAMODB_TABLE env)" and "put_fault io = None"
  shows "\<exists>item. db (snd (build_handler env io ev w)) (the (AWS_DYNAMODB_TABLE env)) (uuid io) = Some item
           \<and> r_buildId item = uuid io \<and> r_status item = Some (js ''queued'')"
proof -
  define item where
    "item = new_record io (the (b_markdown b)) (the (b_projectId b)) (b_metadata b)
              (the (js_or (opt_chain (b_metadata b) m_title) (Some (js ''Untitled''))))
              (the (js_or (opt_chain (b_metadata b) m_slug) (Some (js ''index''))))"
  have i: "r_buildId item = uuid io" "r_status item = Some (js ''queued'')"
    by (simp_all add: item_def new_record_def)
  have "db (snd (build_handler env io ev w)) = db (store_metadata env io item w)"
    unfolding item_def build_handler_snd [OF assms(1)]
    by (rule dispatch_keeps_after_store [OF assms(2-4)])
  then have "db (snd (build_handler env io ev w)) (the (AWS_DYNAMODB_TABLE env)) (uuid io) = Some item"
    using store_metadata_writes [OF assms(5,6), of item w] i(1) by simp
  with i show ?thesis by blast
qed












text \<open>
  The same identifier again: the branch exists, its creation is refused and the dispatch
  is answered 500.
\<close>

lemma example_repeated_id:
  "refuses_existing_ref example_env
     ((example_build_io ''u1'' None)\<lparr>createRef_fault := Some (Error (js ''Reference already exists''))\<rparr>)
     (snd first_dispatch)
   \<and> statusCode (fst (build_handler example_env
         ((example_build_io ''u1'' None)\<lparr>createRef_fault := Some (Error (js ''Reference already exists''))\<rparr>)
         example_post (snd first_dispatch))) = 500"
proof -
  let ?io = "(example_build_io ''u1'' None)\<lparr>createRef_fault := Some (Error (js ''Reference already exists''))\<rparr>"
  have "isl (fst (dispatch example_env ?io example_post (snd first_dispatch)))"
    using dispatch_rejected [OF example_request_hyps(2-4), of example_env ?io "snd first_dispatch"]
    by simp
  then have "statusCode (fst (build_handler example_env ?io example_post (snd first_dispatch))) = 500"
    by (cases "fst (dispatch example_env ?io example_post (snd first_dispatch))")
      (simp_all add: build_handler_fst [OF example_request_hyps(1)])
  then show ?thesis by (simp add: refuses_existing_ref_def)
qed

section \<open>Properties of the Validator\<close>

lemma split_ws_nonempty: "split_ws s \<noteq> []"
  by (induction s rule: split_ws.induct) (auto split: list.splits)

lemma starts_dropWhile: "starts True (dropWhile is_space cs) = starts True cs"
  by (induction cs) auto

lemma starts_True_False:
  "starts True cs = starts False cs + (if cs \<noteq> [] \<and> \<not> is_space (hd cs) then 1 else 0)"
  by (cases cs) auto

lemma hd_split_ws_empty: "hd (split_ws cs) = [] \<longleftrightarrow> cs = [] \<or> is_space (hd cs)"
  by (cases cs) (auto split: list.splits simp: split_ws_nonempty)

lemma word_count_Cons_space:
  "is_space c \<Longrightarrow> word_count (c # cs) = word_count (dropWhile is_space cs)"
  by (simp add: word_count_def)

lemma word_count_Cons_nonspace:
  assumes "\<not> is_space c"
  shows "word_count (c # cs) + (if cs \<noteq> [] \<and> \<not> is_space (hd cs) then 1 else 0) = 1 + word_count cs"
proof -
  obtain t ts where s: "split_ws cs = t # ts"
    using split_ws_nonempty [of cs] by (cases "split_ws cs") auto
  have t: "t = [] \<longleftrightarrow> cs = [] \<or> is_space (hd cs)"
    using hd_split_ws_empty [of cs] s by simp
  show ?thesis using assms s t by (auto simp add: word_count_def)
qed

lemma word_count_starts: "word_count s = starts True s"
proof (induction s rule: split_ws.induct)
  case 1
  show ?case by (simp add: word_count_def)
next
  case (2 c cs)
  show ?case
  proof (cases "is_space c")
    case True
    then show ?thesis using 2(1) by (simp add: word_count_Cons_space starts_dropWhile)
  next
    case False
    then have "word_count cs = starts True cs" using 2(2) by simp
    then show ?thesis
      using word_count_Cons_nonspace [OF False, of cs] starts_True_False [of cs] False
      by (simp split: if_splits)
  qed
qed

lemma starts_index:
  "length (filter (\<lambda>i. \<not> is_space (s ! i) \<and> (if i = 0 then p else is_space (s ! (i - 1))))
      [0..<length s]) = starts p s"
proof (induction s arbitrary: p)
  case Nil
  show ?case by simp
next
  case (Cons c cs)
  have u: "[0..<length (c # cs)] = 0 # map Suc [0..<length cs]"
    by (simp add: upt_conv_Cons map_Suc_upt del: upt_Suc)
  have "length (filter (\<lambda>i. \<not> is_space ((c # cs) ! i)
            \<and> (if i = 0 then p else is_space ((c # cs) ! (i - 1)))) (map Suc [0..<length cs]))
        = length (filter (\<lambda>i. \<not> is_space (cs ! i)
            \<and> (if i = 0 then is_space c else is_space (cs ! (i - 1)))) [0..<length cs])"
    unfolding filter_map length_map
    by (rule arg_cong [where f = length], rule filter_cong) (auto simp add: nth_Cons')
  then show ?case
    unfolding u using Cons.IH [of "is_space c"] by simp
qed

lemma word_count_token_count: "word_count s = token_count s"
proof -
  have "(\<lambda>i. \<not> is_space (s ! i) \<and> (i = 0 \<or> is_space (s ! (i - 1))))
      = (\<lambda>i. \<not> is_space (s ! i) \<and> (if i = 0 then True else is_space (s ! (i - 1))))"
    by (rule ext) simp
  then have "token_count s = starts True s"
    unfolding token_count_def by (simp only: starts_index)
  then show ?thesis by (simp only: word_count_starts)
qed

lemma validate_handler_fst:
  "httpMethod ev = js ''POST'' \<Longrightarrow>
   fst (validate_handler io ev w) =
     (case fst (validation io ev w) of
        Inr r \<Rightarrow> r
      | Inl error \<Rightarrow>
          \<lparr>statusCode = 500, payload = VFailure (js ''Internal server error'') (message error)\<rparr>)"
  by (simp add: validate_handler_def js_POST_not_OPTIONS split: prod.splits sum.splits)

lemma validate_handler_snd:
  "httpMethod ev = js ''POST'' \<Longrightarrow> snd (validate_handler io ev w) = snd (validation io ev w)"
  by (simp add: validate_handler_def js_POST_not_OPTIONS split: prod.splits sum.splits)

text \<open>
  Claim C7. A POST with a markdown text whose frontmatter the parser rejects with the
  error \<open>err\<close> is answered 422 with the one error entry of path \<open>frontmatter\<close>,
  message \<open>Invalid YAML frontmatter syntax\<close> and the parser's own message as details,
  whether the body names a schema or not; no external call is made, so no schema is
  fetched.
\<close>

theorem unparsable_frontmatter_422:
  assumes "httpMethod ev = js ''POST''" and "body ev = Parsed b" and "truthy (v_markdown b)"
    and "matter io (the (v_markdown b)) = Inl err"
  shows "fst (validate_handler io ev w) =
           \<lparr>statusCode = 422,
            payload = VInvalid [SyntaxEntry (js ''frontmatter'')
                        (js ''Invalid YAML frontmatter syntax'') 1 (message err)]\<rparr>
         \<and> trace (snd (validate_handler io ev w)) = trace w"
  using assms
  by (simp add: validate_handler_fst validate_handler_snd validation_def)

lemma example_validate_hyps:
  "httpMethod (example_validate md url) = js ''POST''"
  "body (example_validate md url) = Parsed \<lparr>v_markdown = md, v_schemaUrl = url\<rparr>"
  by (simp_all add: example_validate_def)

lemma example_document_truthy: "truthy (Some example_document)"
  by (simp add: truthy_def example_document_def)

theorem unparsable_frontmatter_422_witness:
  "fst (validate_handler (example_validate_io\<lparr>matter := \<lambda>s. Inl (Error (js ''bad indentation''))\<rparr>)
      (example_validate (Some example_document) (Some (js ''https://example.org/schema.json'')))
      (example_world None))
   = \<lparr>statusCode = 422,
      payload = VInvalid [SyntaxEntry (js ''frontmatter'') (js ''Invalid YAML frontmatter syntax'') 1
                  (js ''bad indentation'')]\<rparr>
   \<and> trace (snd (validate_handler
        (example_validate_io\<lparr>matter := \<lambda>s. Inl (Error (js ''bad indentation''))\<rparr>)
        (example_validate (Some example_document) (Some (js ''https://example.org/schema.json'')))
        (example_world None))) = []"
  using unparsable_frontmatter_422 [OF example_validate_hyps,
      where io = "example_validate_io\<lparr>matter := \<lambda>s. Inl (Error (js ''bad indentation''))\<rparr>"
        and err = "Error (js ''bad indentation'')" and w = "example_world None"
        and md1 = "Some example_document"
        and url1 = "Some (js ''https://example.org/schema.json'')"]
    example_document_truthy
  by (simp add: example_world_def)

lemma check_schema_invalid:
  assumes "truthy schemaUrl" and "fetch_schema (fetch io (the schemaUrl)) = Inr schema"
    and "ajv_compile io schema = Inr validate" and "validate fm = Some errors"
  shows "fst (check_schema io schemaUrl fm w) =
           Inr (Some \<lparr>statusCode = 422, payload = VInvalid (map violation_entry errors)\<rparr>)"
  using assms by (simp add: check_schema_def Let_def)

text \<open>
  Claim C6. When the schema is fetched and compiled and the validating function rejects the
  frontmatter with the list \<open>errors\<close>, the answer is 422 and its \<open>errors\<close> has as
  many entries as that list, in the same order; entry \<open>i\<close> has the instance path of
  error \<open>i\<close>, or its schema path when the instance path is empty, and the error's
  message, keyword and parameters.
\<close>

theorem all_violations_reported:
  assumes "httpMethod ev = js ''POST''" and "body ev = Parsed b" and "truthy (v_markdown b)"
    and "matter io (the (v_markdown b)) = Inr (fm, content)"
    and "truthy (v_schemaUrl b)"
    and "fetch_schema (fetch io (the (v_schemaUrl b))) = Inr schema"
    and "ajv_compile io schema = Inr validate" and "validate fm = Some errors"
  shows "\<exists>es. fst (validate_handler io ev w) = \<lparr>statusCode = 422, payload = VInvalid es\<rparr>
     \<and> length es = length errors
     \<and> (\<forall>i<length errors. es ! i =
           ViolationEntry
             (if instancePath (errors ! i) = [] then schemaPath (errors ! i)
              else instancePath (errors ! i))
             (err_message (errors ! i)) (keyword (errors ! i)) (params (errors ! i)))"
proof -
  have "fst (validate_handler io ev w)
          = \<lparr>statusCode = 422, payload = VInvalid (map violation_entry errors)\<rparr>"
    using assms(1-4) check_schema_invalid [OF assms(5-8), of w]
    by (simp add: validate_handler_fst validation_def case_prod_beta)
  then show ?thesis by (simp add: violation_entry_def)
qed

lemma example_matter:
  "matter example_validate_io example_document =
     Inr ([(js ''title'', js ''T''), (js ''category'', js ''example''),
           (js ''layout'', js ''content.njk'')], js ''# Hi'')"
  by code_simp

lemma example_schema_hyps:
  "fetch_schema (fetch example_validate_io u) = Inr [js ''title'', js ''date'', js ''author'']"
  "ajv_compile example_validate_io [js ''title'', js ''date'', js ''author'']
     = Inr (the_validator [js ''title'', js ''date'', js ''author''])"
  "the_validator [js ''title'', js ''date'', js ''author'']
     [(js ''title'', js ''T''), (js ''category'', js ''example''), (js ''layout'', js ''content.njk'')]
   = Some [\<lparr>instancePath = [], schemaPath = js ''#/required'', keyword = js ''required'',
             params = js ''date'', err_message = Some (js ''must have required property'')\<rparr>,
           \<lparr>instancePath = [], schemaPath = js ''#/required'', keyword = js ''required'',
             params = js ''author'', err_message = Some (js ''must have required property'')\<rparr>]"
  by (simp_all add: example_validate_io_def fetch_schema_def required_keys_def the_validator_def
      js_eq_iff Let_def)

theorem all_violations_reported_witness:
  "fst (validate_handler example_validate_io
      (example_validate (Some example_document) (Some (js ''https://example.org/schema.json'')))
      (example_world None))
   = \<lparr>statusCode = 422,
      payload = VInvalid
        [ViolationEntry (js ''#/required'') (Some (js ''must have required property''))
           (js ''required'') (js ''date''),
         ViolationEntry (js ''#/required'') (Some (js ''must have required property''))
           (js ''required'') (js ''author'')]\<rparr>"
proof -
  have u: "truthy (Some (js ''https://example.org/schema.json''))"
    by (simp add: truthy_def js_Nil_iff)
  obtain es where
    r: "fst (validate_handler example_validate_io
          (example_validate (Some example_document) (Some (js ''https://example.org/schema.json'')))
          (example_world None)) = \<lparr>statusCode = 422, payload = VInvalid es\<rparr>"
    and n: "length es = 2"
    and e: "\<forall>i<2. es ! i =
           ViolationEntry (js ''#/required'') (Some (js ''must have required property''))
             (js ''required'') ([js ''date'', js ''author''] ! i)"
    using all_violations_reported [where io = example_validate_io
        and ev = "example_validate (Some example_document) (Some (js ''https://example.org/schema.json''))"
        and w = "example_world None"
        and b = "\<lparr>v_markdown = Some example_document,
                   v_schemaUrl = Some (js ''https://example.org/schema.json'')\<rparr>"
        and fm = "[(js ''title'', js ''T''), (js ''category'', js ''example''),
                   (js ''layout'', js ''content.njk'')]"
        and content = "js ''# Hi''" and schema = "[js ''title'', js ''date'', js ''author'']"
        and validate = "the_validator [js ''title'', js ''date'', js ''author'']"
        and errors = "[\<lparr>instancePath = [], schemaPath = js ''#/required'', keyword = js ''required'',
             params = js ''date'', err_message = Some (js ''must have required property'')\<rparr>,
           \<lparr>instancePath = [], schemaPath = js ''#/required'', keyword = js ''required'',
             params = js ''author'', err_message = Some (js ''must have required property'')\<rparr>]"]
      example_validate_hyps example_document_truthy example_matter u example_schema_hyps
    by (auto simp add: nth_Cons' less_Suc_eq numeral_2_eq_2)
  have "es = [es ! 0, es ! 1]"
    using n by (cases es; cases "tl es") auto
  then show ?thesis using r e by (simp add: numeral_2_eq_2)
qed

lemma reading_time_bounds: "n \<le> 200 * reading_time n \<and> 200 * reading_time n < n + 200"
proof -
  define c where "c = \<lceil>(of_nat n :: rat) / 200\<rceil>"
  have "of_int c - 1 < (of_nat n :: rat) / 200" and "(of_nat n :: rat) / 200 \<le> of_int c"
    unfolding c_def by linarith+
  then have "(of_int c - 1) * 200 < (of_nat n :: rat)" and "(of_nat n :: rat) \<le> of_int c * 200"
    by (simp_all add: field_simps)
  then have "(of_int ((c - 1) * 200) :: rat) < of_int (int n)"
    and "(of_int (int n) :: rat) \<le> of_int (c * 200)"
    by simp_all
  then have b: "(c - 1) * 200 < int n" "int n \<le> c * 200"
    by (simp_all only: of_int_less_iff of_int_le_iff)
  then have "0 \<le> c" by linarith
  then have "int (reading_time n) = c"
    unfolding reading_time_def c_def by simp
  with b have "(int (reading_time n) - 1) * 200 < int n" "int n \<le> int (reading_time n) * 200"
    by simp_all
  then have "int n \<le> 200 * int (reading_time n)" "200 * int (reading_time n) < int n + 200"
    by (simp_all add: algebra_simps)
  then have "n \<le> 200 * reading_time n" "200 * reading_time n < n + 200"
    by linarith+
  then show ?thesis by simp
qed

lemma reading_time_div: "reading_time n = (n + 199) div 200"
  using reading_time_bounds [of n] by linarith

lemma check_schema_not_valid:
  "fst (check_schema io url fm0 w) = Inr (Some r) \<Longrightarrow> payload r \<noteq> VValid fm content preview m"
  by (auto simp add: check_schema_def Let_def split: if_splits sum.splits option.splits)

lemma validation_valid:
  assumes "fst (validation io ev w) = Inr r" and "payload r = VValid fm content preview m"
  shows "\<exists>b. body ev = Parsed b \<and> truthy (v_markdown b)
           \<and> matter io (the (v_markdown b)) = Inr (fm, content) \<and> m = content_metrics content"
proof (cases "body ev")
  case (Throws e)
  with assms show ?thesis by (simp add: validation_def)
next
  case (Parsed b)
  show ?thesis
  proof (cases "truthy (v_markdown b)")
    case False
    with assms Parsed show ?thesis by (auto simp add: validation_def)
  next
    case t: True
    show ?thesis
    proof (cases "matter io (the (v_markdown b))")
      case (Inl e)
      with assms Parsed t show ?thesis by (auto simp add: validation_def)
    next
      case (Inr p)
      obtain fm' content' where p: "p = (fm', content')" by (cases p)
      show ?thesis
      proof (cases "fst (check_schema io (v_schemaUrl b) fm' w)")
        case (Inl e)
        with assms Parsed t Inr p show ?thesis
          by (simp add: validation_def case_prod_beta)
      next
        case c: (Inr res)
        show ?thesis
        proof (cases res)
          case None
          with assms Parsed t Inr p c show ?thesis
            by (auto simp add: validation_def case_prod_beta Let_def)
        next
          case (Some r')
          with assms Parsed t Inr p c have "r = r'"
            by (simp add: validation_def case_prod_beta)
          with assms(2) check_schema_not_valid [of io "v_schemaUrl b" fm' w r' fm content preview m]
            c Some show ?thesis by simp
        qed
      qed
    qed
  qed
qed

text \<open>
  Claim C5. Whenever the answer is the success answer, with body \<open>content\<close> and metrics
  \<open>m\<close>: \<open>content\<close> is the body the frontmatter parser returned for the request's
  markdown text, \<open>wordCount\<close> is the number of white-space-delimited tokens of
  \<open>content\<close>, and \<open>readingTime\<close> is \<open>wordCount / 200\<close> rounded up, the one whole
  number \<open>r\<close> with \<open>wordCount \<le> 200 * r < wordCount + 200\<close>.
\<close>

theorem metrics_of_valid_document:
  assumes "payload (fst (validate_handler io ev w)) = VValid fm content preview m"
  shows "(\<exists>b. body ev = Parsed b \<and> truthy (v_markdown b)
            \<and> matter io (the (v_markdown b)) = Inr (fm, content))
     \<and> wordCount m = token_count content
     \<and> int (readingTime m) = \<lceil>(of_nat (wordCount m) :: rat) / 200\<rceil>
     \<and> wordCount m \<le> 200 * readingTime m \<and> 200 * readingTime m < wordCount m + 200"
proof -
  have post: "httpMethod ev = js ''POST''"
    using assms by (auto simp add: validate_handler_def split: if_splits)
  obtain r where r: "fst (validation io ev w) = Inr r" "payload r = VValid fm content preview m"
    using assms by (cases "fst (validation io ev w)") (auto simp add: validate_handler_fst [OF post])
  obtain b where b: "body ev = Parsed b" "truthy (v_markdown b)"
      "matter io (the (v_markdown b)) = Inr (fm, content)" and m: "m = content_metrics content"
    using validation_valid [OF r] by blast
  have w: "wordCount m = token_count content"
    by (simp add: m content_metrics_def word_count_token_count)
  have rt: "readingTime m = reading_time (wordCount m)"
    by (simp add: m content_metrics_def)
  have "int (reading_time (wordCount m)) = \<lceil>(of_nat (wordCount m) :: rat) / 200\<rceil>"
    by (simp add: reading_time_def)
  then show ?thesis
    using b w rt reading_time_bounds [of "wordCount m"] by auto
qed

lemma example_metrics:
  "content_metrics (js ''# Hi'') =
     \<lparr>wordCount = 2, readingTime = 1, contentLength = 4, hasImages = False, hasCode = False\<rparr>"
  by code_simp

lemma valid_without_schema:
  assumes "truthy (Some markdown)" and "matter io markdown = Inr (fm, content)"
  shows "validate_handler io (example_validate (Some markdown) None) w =
           (\<lparr>statusCode = 200,
             payload = VValid fm content (md_render io content) (content_metrics content)\<rparr>, w)"
  using assms
  by (simp add: validate_handler_def validation_def check_schema_def example_validate_def
      js_POST_not_OPTIONS truthy_def)

theorem metrics_of_valid_document_witness:
  "payload (fst (validate_handler example_validate_io
       (example_validate (Some example_document) None) (example_world None)))
     = VValid [(js ''title'', js ''T''), (js ''category'', js ''example''),
               (js ''layout'', js ''content.njk'')] (js ''# Hi'') (js ''# Hi'')
         \<lparr>wordCount = 2, readingTime = 1, contentLength = 4, hasImages = False, hasCode = False\<rparr>
   \<and> token_count (js ''# Hi'') = 2
   \<and> \<lceil>(of_nat 2 :: rat) / 200\<rceil> = 1"
proof -
  have p: "payload (fst (validate_handler example_validate_io
       (example_validate (Some example_document) None) (example_world None)))
     = VValid [(js ''title'', js ''T''), (js ''category'', js ''example''),
               (js ''layout'', js ''content.njk'')] (js ''# Hi'') (js ''# Hi'')
         \<lparr>wordCount = 2, readingTime = 1, contentLength = 4, hasImages = False, hasCode = False\<rparr>"
    using valid_without_schema [OF example_document_truthy example_matter, of "example_world None"]
    by (simp add: example_validate_io_def example_metrics)
  show ?thesis
    using metrics_of_valid_document [OF p] p by simp
qed

text \<open>
  Claim C4, as amended. For the example document and no schema, with a frontmatter parser
  that returns the body \<open># Hi\<close> for it (as the parser does), the answer is 200 and
  its \<open>wordCount\<close> is 2: the body has the two tokens \<open>#\<close> and \<open>Hi\<close>.
\<close>

theorem example_word_count:
  assumes "matter io example_document = Inr (fm, js ''# Hi'')"
  shows "statusCode (fst (validate_handler io (example_validate (Some example_document) None) w)) = 200
     \<and> map_option wordCount (reported_metrics
           (fst (validate_handler io (example_validate (Some example_document) None) w))) = Some 2"
  using valid_without_schema [OF example_document_truthy assms, of w]
  by (simp add: reported_metrics_def example_metrics)

theorem example_word_count_witness:
  "matter example_validate_io example_document =
     Inr ([(js ''title'', js ''T''), (js ''category'', js ''example''),
           (js ''layout'', js ''content.njk'')], js ''# Hi'')
   \<and> statusCode (fst (validate_handler example_validate_io
         (example_validate (Some example_document) None) (example_world None))) = 200
   \<and> map_option wordCount (reported_metrics (fst (validate_handler example_validate_io
         (example_validate (Some example_document) None) (example_world None)))) = Some 2"
  using example_word_count [OF example_matter, of "example_world None"] example_matter
  by simp

text \<open>
  Claim C4 as stated fails: for the example document and no schema the answer is 200 and
  its \<open>wordCount\<close> is not 1.
\<close>

theorem example_word_count_counterexample:
  "statusCode (fst (validate_handler example_validate_io
      (example_validate (Some example_document) None) (example_world None))) = 200
   \<and> map_option wordCount (reported_metrics (fst (validate_handler example_validate_io
         (example_validate (Some example_document) None) (example_world None)))) \<noteq> Some 1"
  using valid_without_schema [OF example_document_truthy example_matter, of "example_world None"]
  by (simp add: reported_metrics_def example_metrics)

end
